theory Spec2Isabelle
  imports Main "HOL-Library.Word" "HOL-Library.Multiset" "HOL-Library.AList"
begin

section \<open>Values of the host language\<close>

text \<open>
  The plugin (\<^verbatim>\<open>index.js\<close>) is JavaScript. Configuration objects are plain objects
  whose properties hold \<^verbatim>\<open>undefined\<close>, \<^verbatim>\<open>null\<close>, booleans and (integer)
  numbers; the only nested object the code builds itself is the parameter block of the
  native Brotli encoder, keyed by constants of Node's \<^verbatim>\<open>zlib.constants\<close>.
  Those constants are kept symbolic: one constructor per constant. The parameter block
  is the list of its properties in the order they were written.
\<close>

type_synonym bytes = "8 word list"

datatype brotli_mode = BROTLI_MODE_GENERIC | BROTLI_MODE_TEXT | BROTLI_MODE_FONT

datatype brotli_param =
    BROTLI_PARAM_MODE
  | BROTLI_PARAM_QUALITY
  | BROTLI_PARAM_SIZE_HINT
  | BROTLI_PARAM_LGWIN
  | BROTLI_PARAM_DISABLE_LITERAL_CONTEXT_MODELING
  | BROTLI_PARAM_LGBLOCK
  | BROTLI_PARAM_NPOSTFIX
  | BROTLI_PARAM_NDIRECT

datatype jsval =
    JUndefined
  | JNull
  | JBool bool
  | JNum int
  | JParams "(brotli_param \<times> native_val) list"
and native_val =
    NMode brotli_mode
  | NVal jsval

text \<open>An object is a finite map from property names to values; a property that is
  not there reads as \<^verbatim>\<open>undefined\<close>.\<close>

type_synonym js_object = "string \<Rightarrow> jsval option"

definition obj_get :: "js_object \<Rightarrow> string \<Rightarrow> jsval" where
  "obj_get obj k = (case obj k of None \<Rightarrow> JUndefined | Some v \<Rightarrow> v)"

text \<open>Truthiness, as \<^verbatim>\<open>if (v)\<close>, \<^verbatim>\<open>!v\<close> and \<^verbatim>\<open>a && b\<close> test it.\<close>

fun truthy :: "jsval \<Rightarrow> bool" where
  "truthy JUndefined = False"
| "truthy JNull = False"
| "truthy (JBool b) = b"
| "truthy (JNum n) = (n \<noteq> 0)"
| "truthy (JParams ps) = True"

text \<open>\<^verbatim>\<open>n < v\<close> for a number \<open>n\<close>: the right operand is converted to a number
  (\<^verbatim>\<open>undefined\<close> and objects to NaN, which compares false; \<^verbatim>\<open>null\<close> to 0; booleans
  to 0 and 1).\<close>

fun js_lt :: "int \<Rightarrow> jsval \<Rightarrow> bool" where
  "js_lt n JUndefined = False"
| "js_lt n JNull = (n < 0)"
| "js_lt n (JBool b) = (n < (if b then 1 else 0))"
| "js_lt n (JNum t) = (n < t)"
| "js_lt n (JParams ps) = False"

text \<open>Object spread \<^verbatim>\<open>{ ...a, ...b }\<close>: the properties of \<open>b\<close> win. Spreading
  \<^verbatim>\<open>undefined\<close> adds nothing.\<close>

definition spread :: "js_object \<Rightarrow> js_object \<Rightarrow> js_object" where
  "spread a b = a ++ b"

definition spread_opt :: "js_object \<Rightarrow> js_object option \<Rightarrow> js_object" where
  "spread_opt a b = (case b of None \<Rightarrow> a | Some b' \<Rightarrow> spread a b')"

section \<open>Configuration\<close>

text \<open>\<^verbatim>\<open>zlib.constants.Z_BEST_COMPRESSION\<close> of Node's zlib binding.\<close>

definition Z_BEST_COMPRESSION :: int where
  "Z_BEST_COMPRESSION = 9"

text \<open>The shape of the object the configuration source returns (and of
  \<^verbatim>\<open>defaultOptions\<close>). The two codec sub-configs are objects, or absent; the pattern
  \<^verbatim>\<open>test\<close> is a string, or absent. The file reads \<^verbatim>\<open>concurrency\<close> from
  \<^verbatim>\<open>defaultOptions\<close> only, where it is the number 2.\<close>

record options =
  test :: "string option"
  compressOutput :: jsval
  threshold :: jsval
  concurrency :: nat
  gzip :: "js_object option"
  brotli :: "js_object option"

definition defaultOptions_gzip :: js_object where
  "defaultOptions_gzip =
     [''enabled'' \<mapsto> JBool True,
      ''numiterations'' \<mapsto> JNum 15,
      ''blocksplitting'' \<mapsto> JBool True,
      ''blocksplittinglast'' \<mapsto> JBool False,
      ''blocksplittingmax'' \<mapsto> JNum 15,
      ''zlib'' \<mapsto> JBool False,
      ''zlibLevel'' \<mapsto> JNum Z_BEST_COMPRESSION,
      ''zlibMemLevel'' \<mapsto> JNum Z_BEST_COMPRESSION]"

definition defaultOptions_brotli :: js_object where
  "defaultOptions_brotli =
     [''enabled'' \<mapsto> JBool True,
      ''mode'' \<mapsto> JNum 0,
      ''quality'' \<mapsto> JNum 11,
      ''lgwin'' \<mapsto> JNum 24,
      ''enable_context_modeling'' \<mapsto> JBool True]"

definition defaultOptions :: options where
  "defaultOptions =
     \<lparr> test = Some ''.'',
       compressOutput = JBool False,
       threshold = JUndefined,
       concurrency = 2,
       gzip = Some defaultOptions_gzip,
       brotli = Some defaultOptions_brotli \<rparr>"

text \<open>The configuration each task is called with (lines 87 and 88):
  \<^verbatim>\<open>{ ...defaultOptions.gzip, threshold, ...gzip }\<close> and
  \<^verbatim>\<open>{ ...defaultOptions.brotli, threshold, ...brotli }\<close>. The shorthand property
  \<^verbatim>\<open>threshold\<close> is set even when its value is \<^verbatim>\<open>undefined\<close>.\<close>

definition gzipConfig :: "jsval \<Rightarrow> js_object option \<Rightarrow> js_object" where
  "gzipConfig thr gz =
     spread_opt (spread defaultOptions_gzip [''threshold'' \<mapsto> thr]) gz"

definition brotliConfig :: "jsval \<Rightarrow> js_object option \<Rightarrow> js_object" where
  "brotliConfig thr br =
     spread_opt (spread defaultOptions_brotli [''threshold'' \<mapsto> thr]) br"

section \<open>The environment and the shared state\<close>

datatype error = Err string

record stats =
  is_file :: bool
  st_size :: nat

text \<open>
  The file system, the clock and the codecs are external collaborators. One record holds
  what they answer: \<open>statSync\<close> throws or returns the stat snapshot, \<open>readFile\<close> and the
  gzip encoders call back with an error or with the data, \<open>writeFile\<close> calls back with an
  error or without one, \<open>brotli_compress\<close> returns \<^verbatim>\<open>null\<close> (\<open>None\<close>) or the data.
  \<open>startTime\<close> and \<open>endTime\<close> are the two readings of \<^verbatim>\<open>new Date().getTime()\<close> of a
  task: after the stat of the file, and in the write callback of the artifact.
\<close>

record env =
  statSync :: "string \<Rightarrow> error + stats"
  readFile :: "string \<Rightarrow> error + bytes"
  writeFile :: "string \<Rightarrow> bytes \<Rightarrow> error option"
  startTime :: "string \<Rightarrow> int"
  endTime :: "string \<Rightarrow> int"
  zlib_gzip :: "bytes \<Rightarrow> jsval \<Rightarrow> jsval \<Rightarrow> error + bytes"
  zopfli_gzip :: "bytes \<Rightarrow> js_object \<Rightarrow> error + bytes"
  brotli_isZlib :: bool
  brotli_compress :: "bytes \<Rightarrow> js_object \<Rightarrow> bytes option"

text \<open>An element of the module-level array \<^verbatim>\<open>output\<close>:
  \<^verbatim>\<open>{ size, file, time }\<close>.\<close>

record outcome =
  o_size :: nat
  o_file :: string
  o_time :: int

text \<open>What a task does, in order: the read it starts, the codec call, and the write of
  the artifact with the error its callback was called with, if any.\<close>

datatype event =
    EvRead string
  | EvCodec string
  | EvWrite string bytes "error option"

text \<open>The state tasks share: the module-level \<^verbatim>\<open>output\<close> array (line 38) and the
  history of file-system effects.\<close>

record state =
  output_array :: "outcome list"
  trace :: "event list"

text \<open>How a task's promise settles.\<close>

datatype settled = Resolved | Rejected error

definition push :: "outcome \<Rightarrow> state \<Rightarrow> state" where
  "push x st = st\<lparr>output_array := output_array st @ [x]\<rparr>"

definition emit :: "event \<Rightarrow> state \<Rightarrow> state" where
  "emit e st = st\<lparr>trace := trace st @ [e]\<rparr>"

text \<open>\<^verbatim>\<open>fs.writeFile(fileName, compressedContent, () => { ... })\<close>, lines 147 to 153
  and 223 to 229: the callback takes no argument, so it runs the same way whether the
  write succeeded or not: it pushes the outcome and resolves.\<close>

definition writeArtifact :: "env \<Rightarrow> string \<Rightarrow> string \<Rightarrow> bytes \<Rightarrow> state \<Rightarrow> settled \<times> state" where
  "writeArtifact e file fileName compressedContent st =
     (let st1 = emit (EvWrite fileName compressedContent (writeFile e fileName compressedContent)) st;
          st2 = push \<lparr> o_size = length compressedContent, o_file = fileName,
                       o_time = endTime e fileName - startTime e file \<rparr> st1
      in (Resolved, st2))"

section \<open>The gzip task\<close>

text \<open>\<^verbatim>\<open>handleCompressedData\<close>, lines 141 to 157.\<close>

definition handleCompressedData ::
  "env \<Rightarrow> string \<Rightarrow> stats \<Rightarrow> error + bytes \<Rightarrow> state \<Rightarrow> settled \<times> state" where
  "handleCompressedData e file stat r st =
     (case r of
        Inl err \<Rightarrow> (Rejected err, st)
      | Inr compressedContent \<Rightarrow>
          if st_size stat > length compressedContent
          then writeArtifact e file (file @ ''.gz'') compressedContent st
          else (Resolved, st))"

text \<open>The promise of lines 128 to 138: read the file, then call one of the two gzip
  encoders.\<close>

definition gzipRead :: "env \<Rightarrow> string \<Rightarrow> js_object \<Rightarrow> stats \<Rightarrow> state \<Rightarrow> settled \<times> state" where
  "gzipRead e file config stat st =
     (let st1 = emit (EvRead file) st in
      case readFile e file of
        Inl err \<Rightarrow> (Rejected err, st1)
      | Inr content \<Rightarrow>
          if truthy (obj_get config ''zlib'')
          then handleCompressedData e file stat
                 (zlib_gzip e content (obj_get config ''zlibLevel'') (obj_get config ''zlibMemLevel''))
                 (emit (EvCodec ''zlib.gzip'') st1)
          else handleCompressedData e file stat
                 (zopfli_gzip e content config)
                 (emit (EvCodec ''zopfli.gzip'') st1))"

text \<open>\<^verbatim>\<open>gzipCompress\<close>, lines 105 to 158.\<close>

definition gzipCompress :: "env \<Rightarrow> string \<Rightarrow> js_object \<Rightarrow> state \<Rightarrow> settled \<times> state" where
  "gzipCompress e file config st =
     (if \<not> truthy (obj_get config ''enabled'') then (Resolved, st)
      else case statSync e file of
        Inl err \<Rightarrow> (Resolved, st)
      | Inr stat \<Rightarrow>
          if \<not> is_file stat then (Resolved, st)
          else if truthy (obj_get config ''threshold'')
                  \<and> js_lt (int (st_size stat)) (obj_get config ''threshold'')
          then (Resolved, st)
          else gzipRead e file config stat st)"

section \<open>The Brotli task\<close>

text \<open>Lines 184 to 193.\<close>

definition brotliMode :: "js_object \<Rightarrow> brotli_mode" where
  "brotliMode config =
     (if obj_get config ''mode'' = JNum 1 then BROTLI_MODE_TEXT
      else if obj_get config ''mode'' = JNum 2 then BROTLI_MODE_FONT
      else BROTLI_MODE_GENERIC)"

text \<open>The object literal of lines 194 to 202, evaluated on the task's configuration and
  assigned to \<^verbatim>\<open>config\<close>.\<close>

definition nativeParams :: "js_object \<Rightarrow> stats \<Rightarrow> (brotli_param \<times> native_val) list" where
  "nativeParams config stat =
     [(BROTLI_PARAM_MODE, NMode (brotliMode config)),
      (BROTLI_PARAM_QUALITY, NVal (obj_get config ''quality'')),
      (BROTLI_PARAM_SIZE_HINT, NVal (JNum (int (st_size stat)))),
      (BROTLI_PARAM_LGWIN, NVal (obj_get config ''lgwin'')),
      (BROTLI_PARAM_DISABLE_LITERAL_CONTEXT_MODELING,
        NVal (JBool (if obj_get config ''enable_context_modeling'' = JBool False then True else False)))]"

definition paramsObject :: "js_object \<Rightarrow> stats \<Rightarrow> js_object" where
  "paramsObject config stat = [''params'' \<mapsto> JParams (nativeParams config stat)]"

text \<open>\<^verbatim>\<open>config.params[k] = v\<close>.\<close>

definition setParam :: "js_object \<Rightarrow> brotli_param \<Rightarrow> jsval \<Rightarrow> js_object" where
  "setParam config k v =
     (case config ''params'' of
        Some (JParams ps) \<Rightarrow> config(''params'' \<mapsto> JParams (AList.update k (NVal v) ps))
      | _ \<Rightarrow> config)"

text \<open>Lines 203 to 211. They run after the assignment of line 194, so \<^verbatim>\<open>config\<close> is
  the new object here, and \<^verbatim>\<open>config.lgblock\<close>, \<^verbatim>\<open>config.nPostfix\<close> and
  \<^verbatim>\<open>config.nDirect\<close> are read from it.\<close>

definition addOptional :: "js_object \<Rightarrow> string \<Rightarrow> brotli_param \<Rightarrow> js_object" where
  "addOptional config name k =
     (if truthy (obj_get config name) then setParam config k (obj_get config name) else config)"

text \<open>The configuration handed to \<^verbatim>\<open>brotli.compress\<close>: lines 183 to 212.\<close>

definition brotliCodecConfig :: "bool \<Rightarrow> js_object \<Rightarrow> stats \<Rightarrow> js_object" where
  "brotliCodecConfig isZlib config stat =
     (if isZlib then
        (let c0 = paramsObject config stat;
             c1 = addOptional c0 ''lgblock'' BROTLI_PARAM_LGBLOCK;
             c2 = addOptional c1 ''nPostfix'' BROTLI_PARAM_NPOSTFIX;
             c3 = addOptional c2 ''nDirect'' BROTLI_PARAM_NDIRECT
         in c3)
      else config)"

text \<open>The promise of lines 214 to 234.\<close>

definition brotliRead :: "env \<Rightarrow> string \<Rightarrow> js_object \<Rightarrow> stats \<Rightarrow> state \<Rightarrow> settled \<times> state" where
  "brotliRead e file config stat st =
     (let st1 = emit (EvRead file) st in
      case readFile e file of
        Inl err \<Rightarrow> (Rejected err, st1)
      | Inr content \<Rightarrow>
          (let st2 = emit (EvCodec ''brotli.compress'') st1 in
           case brotli_compress e content config of
             None \<Rightarrow> (Resolved, st2)
           | Some compressedContent \<Rightarrow>
               if st_size stat > length compressedContent
               then writeArtifact e file (file @ ''.br'') compressedContent st2
               else (Resolved, st2)))"

text \<open>\<^verbatim>\<open>brotliCompress\<close>, lines 160 to 235.\<close>

definition brotliCompress :: "env \<Rightarrow> string \<Rightarrow> js_object \<Rightarrow> state \<Rightarrow> settled \<times> state" where
  "brotliCompress e file config st =
     (if \<not> truthy (obj_get config ''enabled'') then (Resolved, st)
      else case statSync e file of
        Inl err \<Rightarrow> (Resolved, st)
      | Inr stat \<Rightarrow>
          if \<not> is_file stat then (Resolved, st)
          else if truthy (obj_get config ''threshold'')
                  \<and> js_lt (int (st_size stat)) (obj_get config ''threshold'')
          then (Resolved, st)
          else brotliRead e file (brotliCodecConfig (brotli_isZlib e) config stat) stat st)"

section \<open>File discovery\<close>

text \<open>
  Directory-walk mode (lines 56 to 72) reads the output directory with
  \<^verbatim>\<open>fs.readdirSync\<close> and \<^verbatim>\<open>fs.statSync\<close>. The directory is a finite tree: a
  node is a file (anything that is not a directory), a directory with its entries, a
  directory that cannot be listed (\<^verbatim>\<open>readdirSync\<close> throws), or an entry that cannot be
  examined (\<^verbatim>\<open>statSync\<close> throws).
\<close>

datatype fsnode =
    FileNode
  | DirNode "(string \<times> fsnode) list"
  | UnlistableDir error
  | NoStat error

text \<open>\<^verbatim>\<open>path.join(dir, file)\<close> for a directory path that is already normalised and has
  no trailing separator, and an entry name; the normalisation \<^verbatim>\<open>path.join\<close> also does
  is left out.\<close>

definition path_join :: "string \<Rightarrow> string \<Rightarrow> string" where
  "path_join dir file = dir @ ''/'' @ file"

text \<open>\<^verbatim>\<open>fs.statSync(f)\<close> on an entry of the tree throws or returns, and then
  \<^verbatim>\<open>.isDirectory()\<close> answers.\<close>

fun stat_error :: "fsnode \<Rightarrow> error option" where
  "stat_error (NoStat err) = Some err"
| "stat_error n = None"

fun isDirectory :: "fsnode \<Rightarrow> bool" where
  "isDirectory (DirNode files) = True"
| "isDirectory (UnlistableDir err) = True"
| "isDirectory n = False"

text \<open>
  A generator is run to its end by the spread of line 86; what it gives is the list of
  the paths it yielded and the error it threw, if it threw one. Paths yielded before a
  throw have been yielded. \<open>filesToCompress_dir\<close> is the generator function of lines 56
  to 72 and \<open>walk_entries\<close> its \<^verbatim>\<open>for\<close> loop: the \<^verbatim>\<open>statSync\<close> of line 60 is
  outside the \<^verbatim>\<open>try\<close>, the recursive \<^verbatim>\<open>yield*\<close> inside it.
\<close>

fun filesToCompress_dir :: "(string \<Rightarrow> bool) \<Rightarrow> string \<Rightarrow> fsnode \<Rightarrow> string list \<times> error option"
and walk_entries :: "(string \<Rightarrow> bool) \<Rightarrow> string \<Rightarrow> (string \<times> fsnode) list \<Rightarrow> string list \<times> error option"
where
  "filesToCompress_dir fileTest dir (DirNode files) = walk_entries fileTest dir files"
| "filesToCompress_dir fileTest dir (UnlistableDir err) = ([], Some err)"
| "filesToCompress_dir fileTest dir FileNode = ([], Some (Err ''ENOTDIR''))"
| "filesToCompress_dir fileTest dir (NoStat err) = ([], Some err)"
| "walk_entries fileTest dir [] = ([], None)"
| "walk_entries fileTest dir ((file, n) # rest) =
     (let f = path_join dir file in
      case stat_error n of
        Some err \<Rightarrow> ([], Some err)
      | None \<Rightarrow>
          if isDirectory n
          then (let (xs, caught) = filesToCompress_dir fileTest f n;
                    (ys, thrown) = walk_entries fileTest dir rest
                in (xs @ ys, thrown))
          else (let (ys, thrown) = walk_entries fileTest dir rest
                in ((if fileTest f then [f] else []) @ ys, thrown)))"

text \<open>Bundle-tree mode (lines 75 to 82).\<close>

datatype parcel_bundle = Bundle (bundle_name: "string option") (childBundles: "parcel_bundle list")

fun filesToCompress_bundle :: "(string \<Rightarrow> bool) \<Rightarrow> parcel_bundle \<Rightarrow> string list" where
  "filesToCompress_bundle fileTest (Bundle nm children) =
     (case nm of
        None \<Rightarrow> []
      | Some n \<Rightarrow> if n \<noteq> [] \<and> fileTest n then [n] else [])
     @ concat (map (filesToCompress_bundle fileTest) children)"

section \<open>The queue\<close>

datatype task = GzipTask string js_object | BrotliTask string js_object

fun run_task :: "env \<Rightarrow> task \<Rightarrow> state \<Rightarrow> settled \<times> state" where
  "run_task e (GzipTask file config) st = gzipCompress e file config st"
| "run_task e (BrotliTask file config) st = brotliCompress e file config st"

text \<open>
  Modelled from the spec: the concurrency limiter (the package \<^verbatim>\<open>p-queue\<close>, which is
  not part of the repository's source). Section 4.4: a bounded work queue accepting up
  to \<open>concurrency\<close> concurrently running tasks; a submitted task starts at once when a
  slot is free and waits otherwise; tasks start in submission order; when a task
  completes, the first waiting task takes its slot.
\<close>

record pqueue =
  limit :: nat
  running :: "task list"
  waiting :: "task list"

text \<open>Modelled from the spec: \<^verbatim>\<open>new pQueue({ concurrency: c })\<close>, an empty queue
  with the bound \<open>c\<close>.\<close>

definition pQueue :: "nat \<Rightarrow> pqueue" where
  "pQueue c = \<lparr> limit = c, running = [], waiting = [] \<rparr>"

text \<open>Modelled from the spec: \<^verbatim>\<open>queue.add(task)\<close>, which starts the task when fewer
  than the bound are running and makes it wait otherwise.\<close>

definition add :: "task \<Rightarrow> pqueue \<Rightarrow> pqueue" where
  "add t q =
     (if length (running q) < limit q then q\<lparr>running := running q @ [t]\<rparr>
      else q\<lparr>waiting := waiting q @ [t]\<rparr>)"

text \<open>Modelled from the spec: the running task at position \<open>i\<close> completes, and the
  first waiting task, if there is one, starts.\<close>

definition settle :: "nat \<Rightarrow> pqueue \<Rightarrow> pqueue" where
  "settle i q =
     (let r = take i (running q) @ drop (Suc i) (running q) in
      case waiting q of
        [] \<Rightarrow> q\<lparr>running := r\<rparr>
      | t # ts \<Rightarrow> q\<lparr>running := r @ [t], waiting := ts\<rparr>)"

text \<open>
  A run in progress: the queue, the state the tasks share, the rejections nobody handles,
  and the largest number of tasks that have been running at once. A task acts on the
  shared state when it completes; which running task completes next is the scheduler's
  choice, given as a list of picks (pick \<open>p\<close> among \<open>n\<close> running tasks completes the
  task at position \<open>p mod n\<close>; when the list runs out, the oldest completes).
\<close>

record sched =
  queue :: pqueue
  shared :: state
  rejections :: "error list"
  peak :: nat

definition submit :: "task \<Rightarrow> sched \<Rightarrow> sched" where
  "submit t s =
     (let q = add t (queue s) in
      s\<lparr>queue := q, peak := max (peak s) (length (running q))\<rparr>)"

definition pick :: "nat list \<Rightarrow> nat \<Rightarrow> nat" where
  "pick picks n = (case picks of [] \<Rightarrow> 0 | p # ps \<Rightarrow> p mod n)"

definition complete :: "env \<Rightarrow> nat \<Rightarrow> sched \<Rightarrow> sched" where
  "complete e i s =
     (let (r, st) = run_task e (running (queue s) ! i) (shared s);
          q = settle i (queue s)
      in s\<lparr>queue := q, shared := st,
           rejections := (case r of Resolved \<Rightarrow> rejections s | Rejected err \<Rightarrow> rejections s @ [err]),
           peak := max (peak s) (length (running q))\<rparr>)"

text \<open>\<^verbatim>\<open>await queue.onIdle()\<close>: run until nothing is running and nothing waits. A queue
  in which tasks wait and none runs never becomes idle (\<open>None\<close>).\<close>

function drain :: "env \<Rightarrow> nat list \<Rightarrow> sched \<Rightarrow> sched option" where
  "drain e picks s =
     (if running (queue s) = []
      then (if waiting (queue s) = [] then Some s else None)
      else drain e (tl picks) (complete e (pick picks (length (running (queue s)))) s))"
  by pat_completeness auto
termination
proof (relation "measure (\<lambda>(e, picks, s). length (running (queue s)) + length (waiting (queue s)))")
  show "wf (measure (\<lambda>(e, picks, s). length (running (queue s)) + length (waiting (queue s))))"
    by simp
next
  fix e :: env and picks :: "nat list" and s :: sched
  assume nonempty: "running (queue s) \<noteq> []"
  define i where "i = pick picks (length (running (queue s)))"
  have "i < length (running (queue s))"
    using nonempty by (simp add: i_def pick_def split: list.splits)
  then have "length (running (settle i (queue s))) + length (waiting (settle i (queue s)))
             < length (running (queue s)) + length (waiting (queue s))"
    by (auto simp: settle_def Let_def split: list.splits)
  then show "((e, tl picks, complete e i s), (e, picks, s))
             \<in> measure (\<lambda>(e, picks, s). length (running (queue s)) + length (waiting (queue s)))"
    by (simp add: complete_def Let_def split: prod.splits)
qed

section \<open>The run\<close>

text \<open>
  \<^verbatim>\<open>Array.prototype.sort\<close> with a comparison function: a stable insertion sort, which
  is what the engine's sort computes for a consistent comparator. The comparator
  \<^verbatim>\<open>sortResults\<close> and the row formatter \<^verbatim>\<open>formatResults\<close> come from the module
  \<^verbatim>\<open>./formatter\<close>; they are parameters of the run.
\<close>

fun insert_by :: "('a \<Rightarrow> 'a \<Rightarrow> int) \<Rightarrow> 'a \<Rightarrow> 'a list \<Rightarrow> 'a list" where
  "insert_by cmp x [] = [x]"
| "insert_by cmp x (y # ys) = (if cmp x y \<le> 0 then x # y # ys else y # insert_by cmp x ys)"

definition js_sort :: "('a \<Rightarrow> 'a \<Rightarrow> int) \<Rightarrow> 'a list \<Rightarrow> 'a list" where
  "js_sort cmp xs = foldr (insert_by cmp) xs []"

text \<open>
  One \<^verbatim>\<open>bundled\<close> event: the process environment, what the configuration source
  answers (it rejects, or finds nothing, or finds a configuration), the regular
  expression constructor, the bundle tree, the output directory and its tree, the file
  system and codecs the tasks see, the scheduler's choices and the formatter.
\<close>

record build =
  NODE_ENV :: "string option"
  search :: "error + options option"
  RegExp :: "string option \<Rightarrow> error + (string \<Rightarrow> bool)"
  root_bundle :: parcel_bundle
  outDir :: string
  outDirTree :: fsnode
  sys :: env
  schedule :: "nat list"
  sortResults :: "outcome \<Rightarrow> outcome \<Rightarrow> int"
  formatResults :: "outcome \<Rightarrow> string list"

datatype report = NotProduction | Failed error | NeverIdle | Table "outcome list" "string list list"

record run =
  result :: report
  most_running :: nat
  unhandled :: "error list"
  after :: state

text \<open>Line 48: \<^verbatim>\<open>(await explorer.search()) || { config: defaultOptions }\<close>.\<close>

definition resolved :: "options option \<Rightarrow> options" where
  "resolved found = (case found of None \<Rightarrow> defaultOptions | Some config \<Rightarrow> config)"

text \<open>Lines 54 to 83 and the spread of line 86.\<close>

definition discover :: "build \<Rightarrow> options \<Rightarrow> (string \<Rightarrow> bool) \<Rightarrow> string list \<times> error option" where
  "discover b config fileTest =
     (if compressOutput config = JBool True
      then filesToCompress_dir fileTest (outDir b) (outDirTree b)
      else (filesToCompress_bundle fileTest (root_bundle b), None))"

text \<open>The two tasks of a file, lines 87 and 88.\<close>

definition tasks_of :: "options \<Rightarrow> string \<Rightarrow> task list" where
  "tasks_of config file =
     [GzipTask file (gzipConfig (threshold config) (gzip config)),
      BrotliTask file (brotliConfig (threshold config) (brotli config))]"

text \<open>Lines 85 to 89: the queue is made with \<^verbatim>\<open>defaultOptions.concurrency\<close>, then
  every file adds its two tasks.\<close>

definition enqueue :: "options \<Rightarrow> string list \<Rightarrow> state \<Rightarrow> sched" where
  "enqueue config files st =
     fold submit (concat (map (tasks_of config) files))
       \<lparr> queue = pQueue (concurrency defaultOptions), shared = st, rejections = [], peak = 0 \<rparr>"

text \<open>The handler of the \<^verbatim>\<open>bundled\<close> event, lines 41 to 103. The sort of line 94 sorts
  the module-level array in place.\<close>

definition bundled :: "build \<Rightarrow> state \<Rightarrow> run" where
  "bundled b st =
     (if NODE_ENV b \<noteq> Some ''production''
      then \<lparr> result = NotProduction, most_running = 0, unhandled = [], after = st \<rparr>
      else case search b of
        Inl err \<Rightarrow> \<lparr> result = Failed err, most_running = 0, unhandled = [], after = st \<rparr>
      | Inr found \<Rightarrow>
         (let config = resolved found in
          case RegExp b (test config) of
            Inl err \<Rightarrow> \<lparr> result = Failed err, most_running = 0, unhandled = [], after = st \<rparr>
          | Inr fileTest \<Rightarrow>
             (case discover b config fileTest of
                (files, Some err) \<Rightarrow>
                  \<lparr> result = Failed err, most_running = 0, unhandled = [], after = st \<rparr>
              | (files, None) \<Rightarrow>
                 (case drain (sys b) (schedule b) (enqueue config files st) of
                    None \<Rightarrow> \<lparr> result = NeverIdle, most_running = 0, unhandled = [], after = st \<rparr>
                  | Some s \<Rightarrow>
                     (let sorted = js_sort (sortResults b) (output_array (shared s)) in
                      \<lparr> result = Table sorted (map (formatResults b) sorted),
                        most_running = peak s,
                        unhandled = rejections s,
                        after = (shared s)\<lparr>output_array := sorted\<rparr> \<rparr>)))))"

text \<open>Several builds in one process: each handler run starts from the state the
  previous one left.\<close>

fun builds :: "build list \<Rightarrow> state \<Rightarrow> run list" where
  "builds [] st = []"
| "builds (b # bs) st = (let r = bundled b st in r # builds bs (after r))"

section \<open>Observations\<close>

text \<open>What a step added to the shared state: the outcomes it recorded and the effects it
  had, and among the effects the writes.\<close>

definition recorded :: "state \<Rightarrow> state \<Rightarrow> outcome list" where
  "recorded st st' = drop (length (output_array st)) (output_array st')"

definition effects :: "state \<Rightarrow> state \<Rightarrow> event list" where
  "effects st st' = drop (length (trace st)) (trace st')"

fun is_write :: "event \<Rightarrow> bool" where
  "is_write (EvWrite p d r) = True"
| "is_write ev = False"

fun write_size :: "event \<Rightarrow> nat" where
  "write_size (EvWrite p d r) = length d"
| "write_size ev = 0"

text \<open>The answer of the gzip encoder that lines 132 to 136 choose.\<close>

definition gzip_encoded :: "env \<Rightarrow> js_object \<Rightarrow> bytes \<Rightarrow> error + bytes" where
  "gzip_encoded e config content =
     (if truthy (obj_get config ''zlib'')
      then zlib_gzip e content (obj_get config ''zlibLevel'') (obj_get config ''zlibMemLevel'')
      else zopfli_gzip e content config)"

text \<open>
  What it is for a task to go on to compression, in terms of the environment alone:
  once the content is read, the chosen encoder is called on that content; an encoder
  error rejects; an answer strictly shorter than the stat size is written beside the
  file and recorded with its length; any other answer is dropped. \<open>kept\<close> is the shared
  state after the write and the push.
\<close>

definition gzip_codec :: "js_object \<Rightarrow> string" where
  "gzip_codec config = (if truthy (obj_get config ''zlib'') then ''zlib.gzip'' else ''zopfli.gzip'')"

definition kept :: "env \<Rightarrow> string \<Rightarrow> string \<Rightarrow> bytes \<Rightarrow> state \<Rightarrow> state" where
  "kept e file fileName c st =
     push \<lparr> o_size = length c, o_file = fileName, o_time = endTime e fileName - startTime e file \<rparr>
       (emit (EvWrite fileName c (writeFile e fileName c)) st)"

definition gzip_compressed ::
  "env \<Rightarrow> string \<Rightarrow> js_object \<Rightarrow> stats \<Rightarrow> bytes \<Rightarrow> state \<Rightarrow> settled \<times> state" where
  "gzip_compressed e file config stat content st =
     (let st2 = emit (EvCodec (gzip_codec config)) (emit (EvRead file) st) in
      case gzip_encoded e config content of
        Inl err \<Rightarrow> (Rejected err, st2)
      | Inr c \<Rightarrow>
          if length c < st_size stat then (Resolved, kept e file (file @ ''.gz'') c st2)
          else (Resolved, st2))"

definition brotli_compressed ::
  "env \<Rightarrow> string \<Rightarrow> js_object \<Rightarrow> stats \<Rightarrow> bytes \<Rightarrow> state \<Rightarrow> settled \<times> state" where
  "brotli_compressed e file codec_config stat content st =
     (let st2 = emit (EvCodec ''brotli.compress'') (emit (EvRead file) st) in
      case brotli_compress e content codec_config of
        None \<Rightarrow> (Resolved, st2)
      | Some c \<Rightarrow>
          if length c < st_size stat then (Resolved, kept e file (file @ ''.br'') c st2)
          else (Resolved, st2))"

text \<open>The native parameter block inside the configuration handed to the Brotli codec.\<close>

definition native_block :: "js_object \<Rightarrow> brotli_param \<Rightarrow> native_val option" where
  "native_block config = (case config ''params'' of Some (JParams ps) \<Rightarrow> map_of ps | _ \<Rightarrow> Map.empty)"

text \<open>What a task records, started from an empty state.\<close>

definition empty_state :: state where
  "empty_state = \<lparr> output_array = [], trace = [] \<rparr>"

definition outcomes_of :: "env \<Rightarrow> task \<Rightarrow> outcome list" where
  "outcomes_of e t = output_array (snd (run_task e t empty_state))"

text \<open>The property \<open>k\<close> of a discovered codec sub-config, when there is a sub-config and
  it has the property.\<close>

definition sub_config_property :: "js_object option \<Rightarrow> string \<Rightarrow> jsval option" where
  "sub_config_property sub k = (case sub of None \<Rightarrow> None | Some obj \<Rightarrow> obj k)"

text \<open>The tasks a run submits (none when it stops before line 85), what those tasks
  record, each started alone, and the collection a run hands to the reporter.\<close>

definition submitted :: "build \<Rightarrow> task list" where
  "submitted b =
     (if NODE_ENV b \<noteq> Some ''production'' then []
      else case search b of
        Inl err \<Rightarrow> []
      | Inr found \<Rightarrow>
         (let config = resolved found in
          case RegExp b (test config) of
            Inl err \<Rightarrow> []
          | Inr fileTest \<Rightarrow>
             (case discover b config fileTest of
                (files, Some err) \<Rightarrow> []
              | (files, None) \<Rightarrow> concat (map (tasks_of config) files))))"

definition produced :: "build \<Rightarrow> outcome list" where
  "produced b = concat (map (outcomes_of (sys b)) (submitted b))"

definition collected :: "run \<Rightarrow> outcome list" where
  "collected r = (case result r of Table xs rows \<Rightarrow> xs | _ \<Rightarrow> [])"

text \<open>Invariants of a run in progress: no more tasks run than the queue's limit, and
  never have; tasks wait only while some task runs. The outcomes the tasks still in the
  queue will record.\<close>

definition bounded :: "sched \<Rightarrow> bool" where
  "bounded s \<longleftrightarrow> length (running (queue s)) \<le> limit (queue s) \<and> peak s \<le> limit (queue s)"

definition live :: "sched \<Rightarrow> bool" where
  "live s \<longleftrightarrow> (waiting (queue s) = [] \<or> running (queue s) \<noteq> [])"

definition weight :: "env \<Rightarrow> pqueue \<Rightarrow> outcome multiset" where
  "weight e q = (\<Sum>t\<in>#mset (running q) + mset (waiting q). mset (outcomes_of e t))"

section \<open>A small installation\<close>

text \<open>
  One file \<^verbatim>\<open>dist/a.js\<close> with the given content. The gzip encoders answer \<open>gz\<close>
  applied to the content, the Brotli encoder \<open>br\<close> applied to it; every write calls
  back with \<open>wr\<close>.
\<close>

definition sample_env :: "bytes \<Rightarrow> (bytes \<Rightarrow> bytes) \<Rightarrow> (bytes \<Rightarrow> bytes) \<Rightarrow> error option \<Rightarrow> env" where
  "sample_env content gz br wr =
     \<lparr> statSync = (\<lambda>p. if p = ''dist/a.js'' then Inr \<lparr> is_file = True, st_size = length content \<rparr>
                        else Inl (Err ''ENOENT'')),
       readFile = (\<lambda>p. if p = ''dist/a.js'' then Inr content else Inl (Err ''ENOENT'')),
       writeFile = (\<lambda>p d. wr),
       startTime = (\<lambda>p. 1000),
       endTime = (\<lambda>p. 1007),
       zlib_gzip = (\<lambda>c level memLevel. Inr (gz c)),
       zopfli_gzip = (\<lambda>c config. Inr (gz c)),
       brotli_isZlib = True,
       brotli_compress = (\<lambda>c config. Some (br c)) \<rparr>"

text \<open>The same installation with a Brotli adapter that is not backed by zlib
  (\<^verbatim>\<open>brotli.isZlib\<close> false).\<close>

definition plain_env :: env where
  "plain_env = (sample_env [1, 2, 3, 4] (take 2) (take 2) None)\<lparr>brotli_isZlib := False\<rparr>"

text \<open>A directory tree for the walk: a file that matches and one that does not, a
  directory that cannot be listed, and a directory in which the second entry cannot be
  examined.\<close>

definition ends_with_js :: "string \<Rightarrow> bool" where
  "ends_with_js p = (drop (length p - 3) p = ''.js'')"

definition sample_tree :: fsnode where
  "sample_tree =
     DirNode
       [(''a.js'', FileNode),
        (''locked'', UnlistableDir (Err ''EACCES'')),
        (''sub'', DirNode [(''b.js'', FileNode), (''gone'', NoStat (Err ''ENOENT'')), (''c.js'', FileNode)]),
        (''d.css'', FileNode),
        (''e.js'', FileNode)]"

text \<open>A production build whose configuration source answers \<open>found\<close> and whose bundle
  tree is \<open>root\<close>; the encoders halve the four bytes of \<^verbatim>\<open>dist/a.js\<close> and every write
  succeeds. The comparator orders by size.\<close>

definition sample_build :: "options option \<Rightarrow> parcel_bundle \<Rightarrow> build" where
  "sample_build found root =
     \<lparr> NODE_ENV = Some ''production'',
       search = Inr found,
       RegExp = (\<lambda>t. Inr (\<lambda>p. True)),
       root_bundle = root,
       outDir = ''dist'',
       outDirTree = sample_tree,
       sys = sample_env [1, 2, 3, 4] (take 2) (take 2) None,
       schedule = [],
       sortResults = (\<lambda>x y. int (o_size x) - int (o_size y)),
       formatResults = (\<lambda>x. [o_file x]) \<rparr>"

text \<open>Three builds: one whose bundle is the file \<^verbatim>\<open>dist/a.js\<close>, with no configuration
  found; one whose bundle names no file; and the first again with a configuration that
  is the default one except for \<^verbatim>\<open>concurrency: 1\<close>.\<close>

definition first_build :: build where
  "first_build = sample_build None (Bundle (Some ''dist/a.js'') [])"

definition second_build :: build where
  "second_build = sample_build None (Bundle None [])"

definition single_config :: options where
  "single_config = defaultOptions\<lparr>concurrency := 1\<rparr>"

definition single_build :: build where
  "single_build = sample_build (Some single_config) (Bundle (Some ''dist/a.js'') [])"

section \<open>Basic facts about the shared state\<close>

lemma output_emit [simp]: "output_array (emit ev st) = output_array st"
  by (simp add: emit_def)

lemma output_push [simp]: "output_array (push x st) = output_array st @ [x]"
  by (simp add: push_def)

lemma trace_emit [simp]: "trace (emit ev st) = trace st @ [ev]"
  by (simp add: emit_def)

lemma trace_push [simp]: "trace (push x st) = trace st"
  by (simp add: push_def)

lemmas task_defs = gzipCompress_def gzipRead_def handleCompressedData_def writeArtifact_def
  brotliCompress_def brotliRead_def

lemmas sample_defs = sample_env_def empty_state_def obj_get_def
  defaultOptions_gzip_def defaultOptions_brotli_def gzipConfig_def brotliConfig_def
  spread_def spread_opt_def

section \<open>The size gate\<close>

lemma gzip_recorded_small:
  "\<forall>x \<in> set (recorded st (snd (gzipCompress e file config st))).
     \<exists>stat. statSync e file = Inr stat \<and> o_size x < st_size stat"
  by (auto simp: task_defs recorded_def Let_def split: if_splits sum.splits option.splits)

lemma brotli_recorded_small:
  "\<forall>x \<in> set (recorded st (snd (brotliCompress e file config st))).
     \<exists>stat. statSync e file = Inr stat \<and> o_size x < st_size stat"
  by (auto simp: task_defs recorded_def Let_def split: if_splits sum.splits option.splits)

lemma gzip_written_small:
  "\<forall>ev \<in> set (effects st (snd (gzipCompress e file config st))). is_write ev \<longrightarrow>
     (\<exists>stat. statSync e file = Inr stat \<and> write_size ev < st_size stat)"
  by (auto simp: task_defs effects_def Let_def split: if_splits sum.splits option.splits)

lemma brotli_written_small:
  "\<forall>ev \<in> set (effects st (snd (brotliCompress e file config st))). is_write ev \<longrightarrow>
     (\<exists>stat. statSync e file = Inr stat \<and> write_size ev < st_size stat)"
  by (auto simp: task_defs effects_def Let_def split: if_splits sum.splits option.splits)

lemma gzip_discard:
  assumes "statSync e file = Inr stat" "readFile e file = Inr content"
    "gzip_encoded e config content = Inr c" "st_size stat \<le> length c"
  shows "recorded st (snd (gzipCompress e file config st)) = []
       \<and> filter is_write (effects st (snd (gzipCompress e file config st))) = []"
  using assms
  by (auto simp: task_defs gzip_encoded_def recorded_def effects_def Let_def split: if_splits)

lemma brotli_discard:
  assumes "statSync e file = Inr stat" "readFile e file = Inr content"
    "brotli_compress e content (brotliCodecConfig (brotli_isZlib e) config stat) = Some c"
    "st_size stat \<le> length c"
  shows "recorded st (snd (brotliCompress e file config st)) = []
       \<and> filter is_write (effects st (snd (brotliCompress e file config st))) = []"
  using assms
  by (auto simp: task_defs recorded_def effects_def Let_def split: if_splits)

text \<open>
  C6. Whatever a gzip or Brotli task records, and whatever it writes, is strictly smaller
  than the size the stat of the file reported. When the encoder's answer is as large as
  that size or larger, the task records no outcome and starts no write.
\<close>

theorem size_gate_strict:
  "(\<forall>st' \<in> {snd (gzipCompress e file config st), snd (brotliCompress e file config st)}.
      (\<forall>x \<in> set (recorded st st'). \<exists>stat. statSync e file = Inr stat \<and> o_size x < st_size stat)
    \<and> (\<forall>ev \<in> set (effects st st'). is_write ev \<longrightarrow>
          (\<exists>stat. statSync e file = Inr stat \<and> write_size ev < st_size stat)))
   \<and> (statSync e file = Inr stat \<and> readFile e file = Inr content
        \<and> gzip_encoded e config content = Inr c \<and> st_size stat \<le> length c \<longrightarrow>
          recorded st (snd (gzipCompress e file config st)) = []
        \<and> filter is_write (effects st (snd (gzipCompress e file config st))) = [])
   \<and> (statSync e file = Inr stat \<and> readFile e file = Inr content
        \<and> brotli_compress e content (brotliCodecConfig (brotli_isZlib e) config stat) = Some c
        \<and> st_size stat \<le> length c \<longrightarrow>
          recorded st (snd (brotliCompress e file config st)) = []
        \<and> filter is_write (effects st (snd (brotliCompress e file config st))) = [])"
proof (intro conjI)
  show "\<forall>st' \<in> {snd (gzipCompress e file config st), snd (brotliCompress e file config st)}.
      (\<forall>x \<in> set (recorded st st'). \<exists>stat. statSync e file = Inr stat \<and> o_size x < st_size stat)
    \<and> (\<forall>ev \<in> set (effects st st'). is_write ev \<longrightarrow>
          (\<exists>stat. statSync e file = Inr stat \<and> write_size ev < st_size stat))"
    using gzip_recorded_small [of st e "file" config] brotli_recorded_small [of st e "file" config]
      gzip_written_small [of st e "file" config] brotli_written_small [of st e "file" config]
    by simp
next
  show "statSync e file = Inr stat \<and> readFile e file = Inr content
        \<and> gzip_encoded e config content = Inr c \<and> st_size stat \<le> length c \<longrightarrow>
          recorded st (snd (gzipCompress e file config st)) = []
        \<and> filter is_write (effects st (snd (gzipCompress e file config st))) = []"
    using gzip_discard [of e "file" stat content config c st] by blast
next
  show "statSync e file = Inr stat \<and> readFile e file = Inr content
        \<and> brotli_compress e content (brotliCodecConfig (brotli_isZlib e) config stat) = Some c
        \<and> st_size stat \<le> length c \<longrightarrow>
          recorded st (snd (brotliCompress e file config st)) = []
        \<and> filter is_write (effects st (snd (brotliCompress e file config st))) = []"
    using brotli_discard [of e "file" stat content config c st] by blast
qed

text \<open>On the four-byte file: a gzip answer of four bytes is discarded while the Brotli
  answer of two bytes is kept, and a Brotli answer of four bytes is discarded.\<close>

theorem size_gate_strict_witness:
  "statSync (sample_env [1, 2, 3, 4] id (take 2) None) ''dist/a.js''
       = Inr \<lparr> is_file = True, st_size = 4 \<rparr>
   \<and> readFile (sample_env [1, 2, 3, 4] id (take 2) None) ''dist/a.js'' = Inr [1, 2, 3, 4]
   \<and> gzip_encoded (sample_env [1, 2, 3, 4] id (take 2) None) defaultOptions_gzip [1, 2, 3, 4]
       = Inr [1, 2, 3, 4]
   \<and> recorded empty_state
        (snd (gzipCompress (sample_env [1, 2, 3, 4] id (take 2) None) ''dist/a.js''
                defaultOptions_gzip empty_state)) = []
   \<and> filter is_write (effects empty_state
        (snd (gzipCompress (sample_env [1, 2, 3, 4] id (take 2) None) ''dist/a.js''
                defaultOptions_gzip empty_state))) = []
   \<and> recorded empty_state
        (snd (brotliCompress (sample_env [1, 2, 3, 4] id (take 2) None) ''dist/a.js''
                defaultOptions_gzip empty_state))
       = [\<lparr> o_size = 2, o_file = ''dist/a.js.br'', o_time = 7 \<rparr>]
   \<and> brotli_compress (sample_env [1, 2, 3, 4] (take 2) id None) [1, 2, 3, 4]
        (brotliCodecConfig (brotli_isZlib (sample_env [1, 2, 3, 4] (take 2) id None))
           defaultOptions_brotli \<lparr> is_file = True, st_size = 4 \<rparr>) = Some [1, 2, 3, 4]
   \<and> recorded empty_state
        (snd (brotliCompress (sample_env [1, 2, 3, 4] (take 2) id None) ''dist/a.js''
                defaultOptions_brotli empty_state)) = []"
  using size_gate_strict [of "sample_env [1, 2, 3, 4] id (take 2) None" "''dist/a.js''"
      defaultOptions_gzip empty_state "\<lparr> is_file = True, st_size = 4 \<rparr>" "[1, 2, 3, 4]" "[1, 2, 3, 4]"]
    size_gate_strict [of "sample_env [1, 2, 3, 4] (take 2) id None" "''dist/a.js''"
      defaultOptions_brotli empty_state "\<lparr> is_file = True, st_size = 4 \<rparr>" "[1, 2, 3, 4]" "[1, 2, 3, 4]"]
  by (simp add: sample_defs gzip_encoded_def brotliCompress_def brotliRead_def
      writeArtifact_def brotliCodecConfig_def recorded_def Let_def)

section \<open>The threshold gate\<close>

lemma gzipRead_reads: "EvRead file \<in> set (effects st (snd (gzipRead e file config stat st)))"
  by (auto simp: task_defs effects_def Let_def split: sum.splits)

lemma brotliRead_reads: "EvRead file \<in> set (effects st (snd (brotliRead e file config stat st)))"
  by (auto simp: task_defs effects_def Let_def split: sum.splits option.splits)

lemma gzip_compressed_codec:
  "EvCodec (gzip_codec config) \<in> set (effects st (snd (gzip_compressed e file config stat content st)))"
  by (simp add: gzip_compressed_def kept_def effects_def Let_def split: sum.splits)

lemma brotli_compressed_codec:
  "EvCodec ''brotli.compress''
     \<in> set (effects st (snd (brotli_compressed e file codec_config stat content st)))"
  by (simp add: brotli_compressed_def kept_def effects_def Let_def split: option.splits)

lemma past_gate:
  assumes "statSync e file = Inr stat" and "is_file stat"
    and "truthy (obj_get config ''enabled'')"
    and "\<not> (truthy (obj_get config ''threshold'')
             \<and> js_lt (int (st_size stat)) (obj_get config ''threshold''))"
  shows "gzipCompress e file config st = gzipRead e file config stat st"
    and "brotliCompress e file config st
           = brotliRead e file (brotliCodecConfig (brotli_isZlib e) config stat) stat st"
  using assms by (auto simp: gzipCompress_def brotliCompress_def)

text \<open>
  C7. With a number \<open>t\<close> as the task's threshold: a file whose size is strictly below
  \<open>t\<close> makes both tasks resolve at once with the shared state untouched (no outcome, no
  read, no write); a regular file whose size equals \<open>t\<close> is not stopped by the gate when
  the codec is enabled: the task is its read-and-compress stage and the read is started;
  when the read gives the content, the encoder is called on that content and its answer
  is kept or dropped by the size gate; when the read fails, the task rejects.
\<close>

theorem threshold_gate:
  assumes "statSync e file = Inr stat" and "obj_get config ''threshold'' = JNum t"
  shows "(int (st_size stat) < t \<longrightarrow>
            gzipCompress e file config st = (Resolved, st)
          \<and> brotliCompress e file config st = (Resolved, st))
       \<and> (int (st_size stat) = t \<and> truthy (obj_get config ''enabled'') \<and> is_file stat \<longrightarrow>
            gzipCompress e file config st = gzipRead e file config stat st
          \<and> brotliCompress e file config st
              = brotliRead e file (brotliCodecConfig (brotli_isZlib e) config stat) stat st
          \<and> EvRead file \<in> set (effects st (snd (gzipCompress e file config st)))
          \<and> EvRead file \<in> set (effects st (snd (brotliCompress e file config st))))
       \<and> (int (st_size stat) = t \<and> truthy (obj_get config ''enabled'') \<and> is_file stat
            \<and> readFile e file = Inr content \<longrightarrow>
            gzipCompress e file config st = gzip_compressed e file config stat content st
          \<and> brotliCompress e file config st
              = brotli_compressed e file (brotliCodecConfig (brotli_isZlib e) config stat) stat content st
          \<and> EvCodec (gzip_codec config) \<in> set (effects st (snd (gzipCompress e file config st)))
          \<and> EvCodec ''brotli.compress'' \<in> set (effects st (snd (brotliCompress e file config st))))
       \<and> (int (st_size stat) = t \<and> truthy (obj_get config ''enabled'') \<and> is_file stat
            \<and> readFile e file = Inl err \<longrightarrow>
            gzipCompress e file config st = (Rejected err, emit (EvRead file) st)
          \<and> brotliCompress e file config st = (Rejected err, emit (EvRead file) st))"
proof (intro conjI impI)
  assume below: "int (st_size stat) < t"
  then have "t \<noteq> 0" by linarith
  with below assms show "gzipCompress e file config st = (Resolved, st)"
    by (simp add: gzipCompress_def)
  from \<open>t \<noteq> 0\<close> below assms show "brotliCompress e file config st = (Resolved, st)"
    by (simp add: brotliCompress_def)
next
  assume at: "int (st_size stat) = t \<and> truthy (obj_get config ''enabled'') \<and> is_file stat"
  with assms have open_gate: "\<not> (truthy (obj_get config ''threshold'')
      \<and> js_lt (int (st_size stat)) (obj_get config ''threshold''))"
    by simp
  from at have flags: "is_file stat" "truthy (obj_get config ''enabled'')" by simp_all
  note pg = past_gate [OF assms(1) flags open_gate, of st]
  show "gzipCompress e file config st = gzipRead e file config stat st"
    by (rule pg(1))
  show "brotliCompress e file config st
      = brotliRead e file (brotliCodecConfig (brotli_isZlib e) config stat) stat st"
    by (rule pg(2))
  show "EvRead file \<in> set (effects st (snd (gzipCompress e file config st)))"
    by (simp only: pg(1) gzipRead_reads)
  show "EvRead file \<in> set (effects st (snd (brotliCompress e file config st)))"
    by (simp only: pg(2) brotliRead_reads)
next
  assume at: "int (st_size stat) = t \<and> truthy (obj_get config ''enabled'') \<and> is_file stat
      \<and> readFile e file = Inr content"
  then have rd: "readFile e file = Inr content" by simp
  from at assms have open_gate: "\<not> (truthy (obj_get config ''threshold'')
      \<and> js_lt (int (st_size stat)) (obj_get config ''threshold''))"
    by simp
  from at have flags: "is_file stat" "truthy (obj_get config ''enabled'')" by simp_all
  note pg = past_gate [OF assms(1) flags open_gate, of st]
  have gr: "gzipRead e file config stat st = gzip_compressed e file config stat content st"
    using rd
    by (simp add: gzipRead_def gzip_compressed_def gzip_encoded_def gzip_codec_def
        handleCompressedData_def writeArtifact_def kept_def Let_def split: sum.splits)
  have br: "brotliRead e file (brotliCodecConfig (brotli_isZlib e) config stat) stat st
      = brotli_compressed e file (brotliCodecConfig (brotli_isZlib e) config stat) stat content st"
    using rd
    by (simp add: brotliRead_def brotli_compressed_def writeArtifact_def kept_def Let_def
        split: option.splits)
  show g: "gzipCompress e file config st = gzip_compressed e file config stat content st"
    by (simp only: pg(1) gr)
  show b: "brotliCompress e file config st
      = brotli_compressed e file (brotliCodecConfig (brotli_isZlib e) config stat) stat content st"
    by (simp only: pg(2) br)
  show "EvCodec (gzip_codec config) \<in> set (effects st (snd (gzipCompress e file config st)))"
    by (simp only: g gzip_compressed_codec)
  show "EvCodec ''brotli.compress'' \<in> set (effects st (snd (brotliCompress e file config st)))"
    by (simp only: b brotli_compressed_codec)
next
  assume at: "int (st_size stat) = t \<and> truthy (obj_get config ''enabled'') \<and> is_file stat
      \<and> readFile e file = Inl err"
  then have rd: "readFile e file = Inl err" by simp
  from at assms have open_gate: "\<not> (truthy (obj_get config ''threshold'')
      \<and> js_lt (int (st_size stat)) (obj_get config ''threshold''))"
    by simp
  from at have flags: "is_file stat" "truthy (obj_get config ''enabled'')" by simp_all
  note pg = past_gate [OF assms(1) flags open_gate, of st]
  have gr: "gzipRead e file config stat st = (Rejected err, emit (EvRead file) st)"
    using rd by (simp add: gzipRead_def Let_def)
  have br: "brotliRead e file (brotliCodecConfig (brotli_isZlib e) config stat) stat st
      = (Rejected err, emit (EvRead file) st)"
    using rd by (simp add: brotliRead_def Let_def)
  show "gzipCompress e file config st = (Rejected err, emit (EvRead file) st)"
    by (simp only: pg(1) gr)
  show "brotliCompress e file config st = (Rejected err, emit (EvRead file) st)"
    by (simp only: pg(2) br)
qed

text \<open>The four-byte file with threshold 5 is skipped; with threshold 4 it is read, each
  encoder is called, and its two-byte answer is written and recorded.\<close>

theorem threshold_gate_witness:
  "statSync (sample_env [1, 2, 3, 4] (take 2) (take 2) None) ''dist/a.js''
       = Inr \<lparr> is_file = True, st_size = 4 \<rparr>
   \<and> obj_get (gzipConfig (JNum 5) None) ''threshold'' = JNum 5
   \<and> gzipCompress (sample_env [1, 2, 3, 4] (take 2) (take 2) None) ''dist/a.js''
        (gzipConfig (JNum 5) None) empty_state = (Resolved, empty_state)
   \<and> brotliCompress (sample_env [1, 2, 3, 4] (take 2) (take 2) None) ''dist/a.js''
        (gzipConfig (JNum 5) None) empty_state = (Resolved, empty_state)
   \<and> obj_get (gzipConfig (JNum 4) None) ''threshold'' = JNum 4
   \<and> truthy (obj_get (gzipConfig (JNum 4) None) ''enabled'')
   \<and> EvRead ''dist/a.js'' \<in> set (effects empty_state
        (snd (gzipCompress (sample_env [1, 2, 3, 4] (take 2) (take 2) None) ''dist/a.js''
                (gzipConfig (JNum 4) None) empty_state)))
   \<and> EvRead ''dist/a.js'' \<in> set (effects empty_state
        (snd (brotliCompress (sample_env [1, 2, 3, 4] (take 2) (take 2) None) ''dist/a.js''
                (gzipConfig (JNum 4) None) empty_state)))
   \<and> readFile (sample_env [1, 2, 3, 4] (take 2) (take 2) None) ''dist/a.js'' = Inr [1, 2, 3, 4]
   \<and> gzipCompress (sample_env [1, 2, 3, 4] (take 2) (take 2) None) ''dist/a.js''
        (gzipConfig (JNum 4) None) empty_state
       = (Resolved,
          \<lparr> output_array = [\<lparr> o_size = 2, o_file = ''dist/a.js.gz'', o_time = 7 \<rparr>],
            trace = [EvRead ''dist/a.js'', EvCodec ''zopfli.gzip'',
                     EvWrite ''dist/a.js.gz'' [1, 2] None] \<rparr>)
   \<and> brotliCompress (sample_env [1, 2, 3, 4] (take 2) (take 2) None) ''dist/a.js''
        (gzipConfig (JNum 4) None) empty_state
       = (Resolved,
          \<lparr> output_array = [\<lparr> o_size = 2, o_file = ''dist/a.js.br'', o_time = 7 \<rparr>],
            trace = [EvRead ''dist/a.js'', EvCodec ''brotli.compress'',
                     EvWrite ''dist/a.js.br'' [1, 2] None] \<rparr>)"
proof -
  have run: "gzipCompress (sample_env [1, 2, 3, 4] (take 2) (take 2) None) ''dist/a.js''
        (gzipConfig (JNum 4) None) empty_state
       = (Resolved,
          \<lparr> output_array = [\<lparr> o_size = 2, o_file = ''dist/a.js.gz'', o_time = 7 \<rparr>],
            trace = [EvRead ''dist/a.js'', EvCodec ''zopfli.gzip'',
                     EvWrite ''dist/a.js.gz'' [1, 2] None] \<rparr>)"
    "brotliCompress (sample_env [1, 2, 3, 4] (take 2) (take 2) None) ''dist/a.js''
        (gzipConfig (JNum 4) None) empty_state
       = (Resolved,
          \<lparr> output_array = [\<lparr> o_size = 2, o_file = ''dist/a.js.br'', o_time = 7 \<rparr>],
            trace = [EvRead ''dist/a.js'', EvCodec ''brotli.compress'',
                     EvWrite ''dist/a.js.br'' [1, 2] None] \<rparr>)"
    by (simp_all add: sample_defs task_defs emit_def push_def brotliCodecConfig_def Let_def)
  show ?thesis
    using threshold_gate [of "sample_env [1, 2, 3, 4] (take 2) (take 2) None" "''dist/a.js''"
        "\<lparr> is_file = True, st_size = 4 \<rparr>" "gzipConfig (JNum 5) None" 5 empty_state
        "[1, 2, 3, 4]" "Err ''EIO''"]
      threshold_gate [of "sample_env [1, 2, 3, 4] (take 2) (take 2) None" "''dist/a.js''"
        "\<lparr> is_file = True, st_size = 4 \<rparr>" "gzipConfig (JNum 4) None" 4 empty_state
        "[1, 2, 3, 4]" "Err ''EIO''"]
      run
    by (simp add: sample_defs task_defs effects_def emit_def push_def Let_def
        gzip_compressed_def brotli_compressed_def kept_def gzip_codec_def gzip_encoded_def
        brotliCodecConfig_def)
qed

text \<open>
  C10. When the task's threshold is falsy (\<open>0\<close>, \<^verbatim>\<open>undefined\<close>, \<^verbatim>\<open>null\<close>,
  \<^verbatim>\<open>false\<close>), an enabled task on a regular file of any size is its read-and-compress
  stage and the read is started; when the read gives the content, the encoder is called
  on that content and its answer is kept or dropped by the size gate; when the read
  fails, the task rejects.
\<close>

theorem falsy_threshold_disables_gate:
  assumes "\<not> truthy (obj_get config ''threshold'')"
    and "truthy (obj_get config ''enabled'')"
    and "statSync e file = Inr stat" and "is_file stat"
  shows "gzipCompress e file config st = gzipRead e file config stat st
       \<and> brotliCompress e file config st
           = brotliRead e file (brotliCodecConfig (brotli_isZlib e) config stat) stat st
       \<and> EvRead file \<in> set (effects st (snd (gzipCompress e file config st)))
       \<and> EvRead file \<in> set (effects st (snd (brotliCompress e file config st)))
       \<and> (readFile e file = Inr content \<longrightarrow>
            gzipCompress e file config st = gzip_compressed e file config stat content st
          \<and> brotliCompress e file config st
              = brotli_compressed e file (brotliCodecConfig (brotli_isZlib e) config stat) stat content st
          \<and> EvCodec (gzip_codec config) \<in> set (effects st (snd (gzipCompress e file config st)))
          \<and> EvCodec ''brotli.compress'' \<in> set (effects st (snd (brotliCompress e file config st))))
       \<and> (readFile e file = Inl err \<longrightarrow>
            gzipCompress e file config st = (Rejected err, emit (EvRead file) st)
          \<and> brotliCompress e file config st = (Rejected err, emit (EvRead file) st))"
proof -
  from assms(1) have open_gate: "\<not> (truthy (obj_get config ''threshold'')
      \<and> js_lt (int (st_size stat)) (obj_get config ''threshold''))"
    by simp
  note pg = past_gate [OF assms(3) assms(4) assms(2) open_gate, of st]
  have reads: "EvRead file \<in> set (effects st (snd (gzipCompress e file config st)))"
    "EvRead file \<in> set (effects st (snd (brotliCompress e file config st)))"
    by (simp_all only: pg gzipRead_reads brotliRead_reads)
  have compressed: "gzipCompress e file config st = gzip_compressed e file config stat content st
      \<and> brotliCompress e file config st
          = brotli_compressed e file (brotliCodecConfig (brotli_isZlib e) config stat) stat content st
      \<and> EvCodec (gzip_codec config) \<in> set (effects st (snd (gzipCompress e file config st)))
      \<and> EvCodec ''brotli.compress'' \<in> set (effects st (snd (brotliCompress e file config st)))"
    if rd: "readFile e file = Inr content"
  proof -
    have gr: "gzipRead e file config stat st = gzip_compressed e file config stat content st"
      using rd
      by (simp add: gzipRead_def gzip_compressed_def gzip_encoded_def gzip_codec_def
          handleCompressedData_def writeArtifact_def kept_def Let_def split: sum.splits)
    have br: "brotliRead e file (brotliCodecConfig (brotli_isZlib e) config stat) stat st
        = brotli_compressed e file (brotliCodecConfig (brotli_isZlib e) config stat) stat content st"
      using rd
      by (simp add: brotliRead_def brotli_compressed_def writeArtifact_def kept_def Let_def
          split: option.splits)
    have g: "gzipCompress e file config st = gzip_compressed e file config stat content st"
      by (simp only: pg(1) gr)
    have b: "brotliCompress e file config st
        = brotli_compressed e file (brotliCodecConfig (brotli_isZlib e) config stat) stat content st"
      by (simp only: pg(2) br)
    show ?thesis
      by (simp only: g b gzip_compressed_codec brotli_compressed_codec simp_thms)
  qed
  have failed: "gzipCompress e file config st = (Rejected err, emit (EvRead file) st)
      \<and> brotliCompress e file config st = (Rejected err, emit (EvRead file) st)"
    if rd: "readFile e file = Inl err"
  proof -
    have gr: "gzipRead e file config stat st = (Rejected err, emit (EvRead file) st)"
      using rd by (simp add: gzipRead_def Let_def)
    have br: "brotliRead e file (brotliCodecConfig (brotli_isZlib e) config stat) stat st
        = (Rejected err, emit (EvRead file) st)"
      using rd by (simp add: brotliRead_def Let_def)
    show ?thesis
      by (simp only: pg gr br simp_thms)
  qed
  from pg reads compressed failed show ?thesis
    by blast
qed

text \<open>An empty file with threshold 0, and with no threshold at all: it is read and the
  encoder is called (its empty answer is not shorter, so it is dropped). The four-byte
  file with no threshold: the two-byte answer is written and recorded.\<close>

theorem falsy_threshold_disables_gate_witness:
  "\<not> truthy (obj_get (brotliConfig (JNum 0) None) ''threshold'')
   \<and> \<not> truthy (obj_get (brotliConfig JUndefined None) ''threshold'')
   \<and> truthy (obj_get (brotliConfig (JNum 0) None) ''enabled'')
   \<and> statSync (sample_env [] id id None) ''dist/a.js'' = Inr \<lparr> is_file = True, st_size = 0 \<rparr>
   \<and> EvRead ''dist/a.js'' \<in> set (effects empty_state
        (snd (gzipCompress (sample_env [] id id None) ''dist/a.js''
                (brotliConfig (JNum 0) None) empty_state)))
   \<and> EvRead ''dist/a.js'' \<in> set (effects empty_state
        (snd (brotliCompress (sample_env [] id id None) ''dist/a.js''
                (brotliConfig JUndefined None) empty_state)))
   \<and> readFile (sample_env [] id id None) ''dist/a.js'' = Inr []
   \<and> gzipCompress (sample_env [] id id None) ''dist/a.js'' (brotliConfig (JNum 0) None) empty_state
       = (Resolved,
          \<lparr> output_array = [], trace = [EvRead ''dist/a.js'', EvCodec ''zopfli.gzip''] \<rparr>)
   \<and> brotliCompress (sample_env [] id id None) ''dist/a.js'' (brotliConfig JUndefined None) empty_state
       = (Resolved,
          \<lparr> output_array = [], trace = [EvRead ''dist/a.js'', EvCodec ''brotli.compress''] \<rparr>)
   \<and> statSync (sample_env [1, 2, 3, 4] (take 2) (take 2) None) ''dist/a.js''
       = Inr \<lparr> is_file = True, st_size = 4 \<rparr>
   \<and> readFile (sample_env [1, 2, 3, 4] (take 2) (take 2) None) ''dist/a.js'' = Inr [1, 2, 3, 4]
   \<and> gzipCompress (sample_env [1, 2, 3, 4] (take 2) (take 2) None) ''dist/a.js''
        (brotliConfig JUndefined None) empty_state
       = (Resolved,
          \<lparr> output_array = [\<lparr> o_size = 2, o_file = ''dist/a.js.gz'', o_time = 7 \<rparr>],
            trace = [EvRead ''dist/a.js'', EvCodec ''zopfli.gzip'',
                     EvWrite ''dist/a.js.gz'' [1, 2] None] \<rparr>)
   \<and> brotliCompress (sample_env [1, 2, 3, 4] (take 2) (take 2) None) ''dist/a.js''
        (brotliConfig JUndefined None) empty_state
       = (Resolved,
          \<lparr> output_array = [\<lparr> o_size = 2, o_file = ''dist/a.js.br'', o_time = 7 \<rparr>],
            trace = [EvRead ''dist/a.js'', EvCodec ''brotli.compress'',
                     EvWrite ''dist/a.js.br'' [1, 2] None] \<rparr>)"
proof -
  have run: "gzipCompress (sample_env [1, 2, 3, 4] (take 2) (take 2) None) ''dist/a.js''
        (brotliConfig JUndefined None) empty_state
       = (Resolved,
          \<lparr> output_array = [\<lparr> o_size = 2, o_file = ''dist/a.js.gz'', o_time = 7 \<rparr>],
            trace = [EvRead ''dist/a.js'', EvCodec ''zopfli.gzip'',
                     EvWrite ''dist/a.js.gz'' [1, 2] None] \<rparr>)"
    "brotliCompress (sample_env [1, 2, 3, 4] (take 2) (take 2) None) ''dist/a.js''
        (brotliConfig JUndefined None) empty_state
       = (Resolved,
          \<lparr> output_array = [\<lparr> o_size = 2, o_file = ''dist/a.js.br'', o_time = 7 \<rparr>],
            trace = [EvRead ''dist/a.js'', EvCodec ''brotli.compress'',
                     EvWrite ''dist/a.js.br'' [1, 2] None] \<rparr>)"
    by (simp_all add: sample_defs task_defs emit_def push_def brotliCodecConfig_def Let_def)
  have empty_run: "gzipCompress (sample_env [] id id None) ''dist/a.js''
        (brotliConfig (JNum 0) None) empty_state
       = (Resolved,
          \<lparr> output_array = [], trace = [EvRead ''dist/a.js'', EvCodec ''zopfli.gzip''] \<rparr>)"
    "brotliCompress (sample_env [] id id None) ''dist/a.js''
        (brotliConfig JUndefined None) empty_state
       = (Resolved,
          \<lparr> output_array = [], trace = [EvRead ''dist/a.js'', EvCodec ''brotli.compress''] \<rparr>)"
    by (simp_all add: sample_defs task_defs emit_def push_def brotliCodecConfig_def Let_def)
  show ?thesis
    using falsy_threshold_disables_gate [of "brotliConfig (JNum 0) None"
        "sample_env [] id id None" "''dist/a.js''" "\<lparr> is_file = True, st_size = 0 \<rparr>" empty_state
        "[]" "Err ''EIO''"]
      falsy_threshold_disables_gate [of "brotliConfig JUndefined None"
        "sample_env [] id id None" "''dist/a.js''" "\<lparr> is_file = True, st_size = 0 \<rparr>" empty_state
        "[]" "Err ''EIO''"]
      falsy_threshold_disables_gate [of "brotliConfig JUndefined None"
        "sample_env [1, 2, 3, 4] (take 2) (take 2) None" "''dist/a.js''"
        "\<lparr> is_file = True, st_size = 4 \<rparr>" empty_state "[1, 2, 3, 4]" "Err ''EIO''"]
      run empty_run
    by (simp add: sample_defs task_defs effects_def emit_def push_def Let_def
        gzip_compressed_def brotli_compressed_def kept_def gzip_codec_def gzip_encoded_def
        brotliCodecConfig_def)
qed

section \<open>The layered configuration\<close>

lemma merged_lookup:
  "spread_opt (spread d [''threshold'' \<mapsto> thr]) sub k =
     (case sub_config_property sub k of
        Some v \<Rightarrow> Some v
      | None \<Rightarrow> if k = ''threshold'' then Some thr else d k)"
proof (cases sub)
  case None
  then show ?thesis
    by (simp add: spread_opt_def spread_def sub_config_property_def)
next
  case (Some obj)
  then show ?thesis
    by (cases "obj k") (simp_all add: spread_opt_def spread_def sub_config_property_def map_add_def)
qed

text \<open>
  C5, as stated, fails: with the top-level threshold 100 and a codec sub-config that has
  its own \<^verbatim>\<open>threshold: 5\<close>, the task's threshold is not 100 (it is 5).
\<close>

theorem call_site_threshold_counterexample:
  "obj_get (gzipConfig (JNum 100) (Some [''threshold'' \<mapsto> JNum 5])) ''threshold'' \<noteq> JNum 100
   \<and> obj_get (brotliConfig (JNum 100) (Some [''threshold'' \<mapsto> JNum 5])) ''threshold'' \<noteq> JNum 100"
  by (simp add: sample_defs)

text \<open>
  C5, amended. The configuration of a task is the layered merge with the precedence
  built-in codec defaults, then the call-site threshold, then the discovered codec
  sub-config: a property the sub-config has is taken from it (also \<^verbatim>\<open>threshold\<close>);
  otherwise \<^verbatim>\<open>threshold\<close> is the call-site one, and any other property is the built-in
  default.
\<close>

theorem merge_precedence:
  "gzipConfig thr gz k =
     (case sub_config_property gz k of
        Some v \<Rightarrow> Some v
      | None \<Rightarrow> if k = ''threshold'' then Some thr else defaultOptions_gzip k)
   \<and> brotliConfig thr br k =
     (case sub_config_property br k of
        Some v \<Rightarrow> Some v
      | None \<Rightarrow> if k = ''threshold'' then Some thr else defaultOptions_brotli k)"
  unfolding gzipConfig_def brotliConfig_def by (simp only: merged_lookup simp_thms)

section \<open>The native Brotli parameters\<close>

lemma addOptional_paramsObject:
  "name \<noteq> ''params'' \<Longrightarrow> addOptional (paramsObject config stat) name k = paramsObject config stat"
  by (simp add: addOptional_def paramsObject_def obj_get_def)

lemma brotliCodecConfig_zlib: "brotliCodecConfig True config stat = paramsObject config stat"
  by (simp add: brotliCodecConfig_def addOptional_paramsObject Let_def)

lemma native_block_zlib:
  "native_block (brotliCodecConfig True config stat) = map_of (nativeParams config stat)"
  by (simp add: brotliCodecConfig_zlib native_block_def paramsObject_def)

text \<open>
  C9, as stated, fails: with an adapter that is not zlib-backed, the task whose
  configuration has mode 1 and \<^verbatim>\<open>enable_context_modeling: false\<close> hands the codec a
  configuration with no native mode constant and no inverted flag: it is the task's
  configuration, unchanged.
\<close>

theorem generic_adapter_counterexample:
  "obj_get (brotliConfig JUndefined (Some [''mode'' \<mapsto> JNum 1, ''enable_context_modeling'' \<mapsto> JBool False])) ''mode'' = JNum 1
   \<and> obj_get (brotliConfig JUndefined (Some [''mode'' \<mapsto> JNum 1, ''enable_context_modeling'' \<mapsto> JBool False])) ''enable_context_modeling'' = JBool False
   \<and> native_block (brotliCodecConfig (brotli_isZlib plain_env)
        (brotliConfig JUndefined (Some [''mode'' \<mapsto> JNum 1, ''enable_context_modeling'' \<mapsto> JBool False]))
        \<lparr> is_file = True, st_size = 4 \<rparr>) BROTLI_PARAM_MODE \<noteq> Some (NMode BROTLI_MODE_TEXT)
   \<and> native_block (brotliCodecConfig (brotli_isZlib plain_env)
        (brotliConfig JUndefined (Some [''mode'' \<mapsto> JNum 1, ''enable_context_modeling'' \<mapsto> JBool False]))
        \<lparr> is_file = True, st_size = 4 \<rparr>) BROTLI_PARAM_DISABLE_LITERAL_CONTEXT_MODELING
       \<noteq> Some (NVal (JBool True))"
  by (simp add: plain_env_def sample_defs brotliCodecConfig_def native_block_def)

text \<open>
  C9, amended. For every Brotli task run with the zlib-backed adapter
  (\<^verbatim>\<open>brotli.isZlib\<close> true), in the parameter block built for the native encoder mode 1
  gives the text constant, mode 2 the font constant, any other value the generic
  constant, also when the property is absent; \<^verbatim>\<open>enable_context_modeling: false\<close> gives
  "disable literal context modeling" true, and \<^verbatim>\<open>true\<close> or an absent property give it
  false. With any other adapter no parameter block is built: the codec is handed the
  task's configuration unchanged.
\<close>

theorem brotli_mode_mapping:
  "(brotli_isZlib e \<longrightarrow>
      (obj_get config ''mode'' = JNum 1 \<longrightarrow>
         native_block (brotliCodecConfig (brotli_isZlib e) config stat) BROTLI_PARAM_MODE
           = Some (NMode BROTLI_MODE_TEXT))
    \<and> (obj_get config ''mode'' = JNum 2 \<longrightarrow>
         native_block (brotliCodecConfig (brotli_isZlib e) config stat) BROTLI_PARAM_MODE
           = Some (NMode BROTLI_MODE_FONT))
    \<and> (obj_get config ''mode'' \<noteq> JNum 1 \<and> obj_get config ''mode'' \<noteq> JNum 2 \<longrightarrow>
         native_block (brotliCodecConfig (brotli_isZlib e) config stat) BROTLI_PARAM_MODE
           = Some (NMode BROTLI_MODE_GENERIC))
    \<and> (config ''mode'' = None \<longrightarrow>
         native_block (brotliCodecConfig (brotli_isZlib e) config stat) BROTLI_PARAM_MODE
           = Some (NMode BROTLI_MODE_GENERIC))
    \<and> (obj_get config ''enable_context_modeling'' = JBool False \<longrightarrow>
         native_block (brotliCodecConfig (brotli_isZlib e) config stat)
           BROTLI_PARAM_DISABLE_LITERAL_CONTEXT_MODELING = Some (NVal (JBool True)))
    \<and> (obj_get config ''enable_context_modeling'' = JBool True
          \<or> config ''enable_context_modeling'' = None \<longrightarrow>
         native_block (brotliCodecConfig (brotli_isZlib e) config stat)
           BROTLI_PARAM_DISABLE_LITERAL_CONTEXT_MODELING = Some (NVal (JBool False))))
   \<and> (\<not> brotli_isZlib e \<longrightarrow> brotliCodecConfig (brotli_isZlib e) config stat = config)"
proof (intro conjI impI)
  assume "\<not> brotli_isZlib e"
  then show "brotliCodecConfig (brotli_isZlib e) config stat = config"
    by (simp add: brotliCodecConfig_def)
qed (auto simp: native_block_zlib nativeParams_def brotliMode_def obj_get_def)

text \<open>With the zlib-backed adapter: mode 1 with context modelling switched off, mode 2,
  and an empty configuration. With the other adapter the configuration is passed on.\<close>

theorem brotli_mode_mapping_witness:
  "brotli_isZlib (sample_env [1, 2, 3, 4] (take 2) (take 2) None)
   \<and> obj_get (brotliConfig JUndefined (Some [''mode'' \<mapsto> JNum 1, ''enable_context_modeling'' \<mapsto> JBool False])) ''mode'' = JNum 1
   \<and> native_block (brotliCodecConfig (brotli_isZlib (sample_env [1, 2, 3, 4] (take 2) (take 2) None))
        (brotliConfig JUndefined (Some [''mode'' \<mapsto> JNum 1, ''enable_context_modeling'' \<mapsto> JBool False]))
        \<lparr> is_file = True, st_size = 4 \<rparr>) BROTLI_PARAM_MODE = Some (NMode BROTLI_MODE_TEXT)
   \<and> native_block (brotliCodecConfig (brotli_isZlib (sample_env [1, 2, 3, 4] (take 2) (take 2) None))
        (brotliConfig JUndefined (Some [''mode'' \<mapsto> JNum 1, ''enable_context_modeling'' \<mapsto> JBool False]))
        \<lparr> is_file = True, st_size = 4 \<rparr>) BROTLI_PARAM_DISABLE_LITERAL_CONTEXT_MODELING = Some (NVal (JBool True))
   \<and> native_block (brotliCodecConfig (brotli_isZlib (sample_env [1, 2, 3, 4] (take 2) (take 2) None))
        (brotliConfig JUndefined (Some [''mode'' \<mapsto> JNum 2]))
        \<lparr> is_file = True, st_size = 4 \<rparr>) BROTLI_PARAM_MODE = Some (NMode BROTLI_MODE_FONT)
   \<and> native_block (brotliCodecConfig (brotli_isZlib (sample_env [1, 2, 3, 4] (take 2) (take 2) None))
        (brotliConfig JUndefined (Some [''mode'' \<mapsto> JNum 2]))
        \<lparr> is_file = True, st_size = 4 \<rparr>) BROTLI_PARAM_DISABLE_LITERAL_CONTEXT_MODELING = Some (NVal (JBool False))
   \<and> native_block (brotliCodecConfig (brotli_isZlib (sample_env [1, 2, 3, 4] (take 2) (take 2) None))
        Map.empty \<lparr> is_file = True, st_size = 4 \<rparr>) BROTLI_PARAM_MODE = Some (NMode BROTLI_MODE_GENERIC)
   \<and> native_block (brotliCodecConfig (brotli_isZlib (sample_env [1, 2, 3, 4] (take 2) (take 2) None))
        Map.empty \<lparr> is_file = True, st_size = 4 \<rparr>) BROTLI_PARAM_DISABLE_LITERAL_CONTEXT_MODELING
       = Some (NVal (JBool False))
   \<and> \<not> brotli_isZlib plain_env
   \<and> brotliCodecConfig (brotli_isZlib plain_env) (brotliConfig JUndefined (Some [''mode'' \<mapsto> JNum 1]))
        \<lparr> is_file = True, st_size = 4 \<rparr>
       = brotliConfig JUndefined (Some [''mode'' \<mapsto> JNum 1])"
  using brotli_mode_mapping [of "sample_env [1, 2, 3, 4] (take 2) (take 2) None"
      "brotliConfig JUndefined (Some [''mode'' \<mapsto> JNum 1, ''enable_context_modeling'' \<mapsto> JBool False])"
      "\<lparr> is_file = True, st_size = 4 \<rparr>"]
    brotli_mode_mapping [of "sample_env [1, 2, 3, 4] (take 2) (take 2) None"
      "brotliConfig JUndefined (Some [''mode'' \<mapsto> JNum 2])" "\<lparr> is_file = True, st_size = 4 \<rparr>"]
    brotli_mode_mapping [of "sample_env [1, 2, 3, 4] (take 2) (take 2) None"
      Map.empty "\<lparr> is_file = True, st_size = 4 \<rparr>"]
    brotli_mode_mapping [of plain_env "brotliConfig JUndefined (Some [''mode'' \<mapsto> JNum 1])"
      "\<lparr> is_file = True, st_size = 4 \<rparr>"]
  by (simp add: plain_env_def sample_defs)

text \<open>The block never holds one of the three optional parameters, whatever the
  configuration: after line 194 \<^verbatim>\<open>config\<close> has the one property \<^verbatim>\<open>params\<close>.\<close>

lemma optional_params_never_set:
  "native_block (brotliCodecConfig True config stat) BROTLI_PARAM_LGBLOCK = None
   \<and> native_block (brotliCodecConfig True config stat) BROTLI_PARAM_NPOSTFIX = None
   \<and> native_block (brotliCodecConfig True config stat) BROTLI_PARAM_NDIRECT = None"
  by (simp add: native_block_zlib nativeParams_def)

text \<open>
  C3. The code at a configuration that provides all three optional parameters
  (\<^verbatim>\<open>brotli: { lgblock: 20, nPostfix: 1, nDirect: 4 }\<close>): the task's configuration has
  \<^verbatim>\<open>lgblock\<close> 20, and the native parameter block has none of the three.
\<close>

theorem advanced_params_dropped:
  "obj_get (brotliConfig JUndefined (Some [''lgblock'' \<mapsto> JNum 20, ''nPostfix'' \<mapsto> JNum 1, ''nDirect'' \<mapsto> JNum 4])) ''lgblock'' = JNum 20
   \<and> native_block (brotliCodecConfig True
        (brotliConfig JUndefined (Some [''lgblock'' \<mapsto> JNum 20, ''nPostfix'' \<mapsto> JNum 1, ''nDirect'' \<mapsto> JNum 4]))
        \<lparr> is_file = True, st_size = 4 \<rparr>) BROTLI_PARAM_LGBLOCK = None
   \<and> native_block (brotliCodecConfig True
        (brotliConfig JUndefined (Some [''lgblock'' \<mapsto> JNum 20, ''nPostfix'' \<mapsto> JNum 1, ''nDirect'' \<mapsto> JNum 4]))
        \<lparr> is_file = True, st_size = 4 \<rparr>) BROTLI_PARAM_NPOSTFIX = None
   \<and> native_block (brotliCodecConfig True
        (brotliConfig JUndefined (Some [''lgblock'' \<mapsto> JNum 20, ''nPostfix'' \<mapsto> JNum 1, ''nDirect'' \<mapsto> JNum 4]))
        \<lparr> is_file = True, st_size = 4 \<rparr>) BROTLI_PARAM_NDIRECT = None"
  by (simp add: sample_defs brotliCodecConfig_def addOptional_def paramsObject_def
      native_block_def nativeParams_def Let_def)

section \<open>A failing write\<close>

text \<open>The outcome is pushed whatever the write's callback was called with.\<close>

lemma writeArtifact_records:
  "writeArtifact e file fileName c st = (r, st') \<Longrightarrow>
     r = Resolved
     \<and> output_array st' = output_array st
           @ [\<lparr> o_size = length c, o_file = fileName, o_time = endTime e fileName - startTime e file \<rparr>]"
  by (auto simp: writeArtifact_def Let_def)

text \<open>
  C1. The code where the encoder's answer passes the size gate and the write of the
  artifact fails with \<^verbatim>\<open>EACCES\<close>: both tasks resolve, and each has pushed its outcome.
\<close>

theorem write_error_still_recorded:
  "gzipCompress (sample_env [1, 2, 3, 4] (take 2) (take 2) (Some (Err ''EACCES''))) ''dist/a.js''
       (gzipConfig JUndefined None) empty_state
     = (Resolved,
        \<lparr> output_array = [\<lparr> o_size = 2, o_file = ''dist/a.js.gz'', o_time = 7 \<rparr>],
          trace = [EvRead ''dist/a.js'', EvCodec ''zopfli.gzip'',
                   EvWrite ''dist/a.js.gz'' [1, 2] (Some (Err ''EACCES''))] \<rparr>)
   \<and> brotliCompress (sample_env [1, 2, 3, 4] (take 2) (take 2) (Some (Err ''EACCES''))) ''dist/a.js''
       (brotliConfig JUndefined None) empty_state
     = (Resolved,
        \<lparr> output_array = [\<lparr> o_size = 2, o_file = ''dist/a.js.br'', o_time = 7 \<rparr>],
          trace = [EvRead ''dist/a.js'', EvCodec ''brotli.compress'',
                   EvWrite ''dist/a.js.br'' [1, 2] (Some (Err ''EACCES''))] \<rparr>)"
  by (simp add: sample_defs task_defs emit_def push_def Let_def)

section \<open>Directory-walk discovery\<close>

lemma walk_step:
  assumes "stat_error n = None \<Longrightarrow> isDirectory n \<Longrightarrow>
             \<forall>p \<in> set (fst (filesToCompress_dir fileTest (path_join dir name) n)). fileTest p"
    and "stat_error n = None \<Longrightarrow> \<forall>p \<in> set (fst (walk_entries fileTest dir rest)). fileTest p"
  shows "\<forall>p \<in> set (fst (walk_entries fileTest dir ((name, n) # rest))). fileTest p"
proof (cases "stat_error n")
  case (Some err)
  then show ?thesis by simp
next
  case None
  with assms show ?thesis
    by (cases "isDirectory n") (auto simp: Let_def split_beta)
qed

lemma walk_yields_match:
  "(\<forall>p \<in> set (fst (filesToCompress_dir fileTest dir node)). fileTest p)"
  "(\<forall>p \<in> set (fst (walk_entries fileTest dir files)). fileTest p)"
proof (induction fileTest dir node and fileTest dir files rule: filesToCompress_dir_walk_entries.induct)
  case (6 fileTest dir name n rest)
  have sub: "stat_error n = None \<Longrightarrow> isDirectory n \<Longrightarrow>
      \<forall>p \<in> set (fst (filesToCompress_dir fileTest (path_join dir name) n)). fileTest p"
    using "6.IH" (1) [OF refl] by blast
  have rest: "stat_error n = None \<Longrightarrow> \<forall>p \<in> set (fst (walk_entries fileTest dir rest)). fileTest p"
    using "6.IH" (2) [OF refl _ _ refl prod.collapse] "6.IH" (3) [OF refl] by blast
  show ?case
    by (rule walk_step [OF sub rest])
qed simp_all

lemma walk_entries_directory:
  assumes "isDirectory sub"
  shows "walk_entries fileTest dir ((name, sub) # rest) =
           (fst (filesToCompress_dir fileTest (path_join dir name) sub) @ fst (walk_entries fileTest dir rest),
            snd (walk_entries fileTest dir rest))"
  using assms by (cases sub) (simp_all add: Let_def split_beta)

lemma walk_entries_no_throw:
  "\<forall>(name, n) \<in> set files. stat_error n = None \<Longrightarrow> snd (walk_entries fileTest dir files) = None"
proof (induction files)
  case Nil
  then show ?case by simp
next
  case (Cons entry files)
  obtain name n where entry: "entry = (name, n)" by (cases entry)
  with Cons show ?case
    by (simp add: Let_def split_beta)
qed

text \<open>
  C8. Every path the directory walk yields matches the test pattern. At an entry that
  is a directory, whatever goes wrong below it is not thrown on: the loop yields what
  the subdirectory yielded before it failed, goes on with the remaining entries, and
  throws only if one of those does; a subdirectory that cannot be listed contributes
  nothing. So the walk of a directory whose own entries can all be examined does not
  throw, whatever is wrong inside its subdirectories.
\<close>

theorem directory_walk:
  "(\<forall>p \<in> set (fst (filesToCompress_dir fileTest dir root)). fileTest p)
   \<and> (isDirectory sub \<longrightarrow>
        walk_entries fileTest dir ((name, sub) # rest) =
          (fst (filesToCompress_dir fileTest (path_join dir name) sub) @ fst (walk_entries fileTest dir rest),
           snd (walk_entries fileTest dir rest)))
   \<and> walk_entries fileTest dir ((name, UnlistableDir err) # rest) = walk_entries fileTest dir rest
   \<and> ((\<forall>(name, n) \<in> set files. stat_error n = None) \<longrightarrow>
        snd (filesToCompress_dir fileTest dir (DirNode files)) = None)"
  using walk_yields_match(1) [of fileTest dir root]
    walk_entries_directory [of sub fileTest dir name rest]
    walk_entries_no_throw [of files fileTest dir]
  by (simp add: Let_def split_beta)

text \<open>The sample tree with the pattern "ends in .js": the unlistable directory gives
  nothing, the walk of \<^verbatim>\<open>sub\<close> stops at the entry that cannot be examined after it
  yielded \<^verbatim>\<open>b.js\<close>, and the walk of the root goes on to \<^verbatim>\<open>e.js\<close> and does not throw.\<close>

theorem directory_walk_witness:
  "isDirectory (DirNode [(''b.js'', FileNode), (''gone'', NoStat (Err ''ENOENT'')), (''c.js'', FileNode)])
   \<and> list_all (\<lambda>(name, n). stat_error n = None)
        [(''a.js'', FileNode),
         (''locked'', UnlistableDir (Err ''EACCES'')),
         (''sub'', DirNode [(''b.js'', FileNode), (''gone'', NoStat (Err ''ENOENT'')), (''c.js'', FileNode)]),
         (''d.css'', FileNode),
         (''e.js'', FileNode)]
   \<and> filesToCompress_dir ends_with_js ''dist'' sample_tree
       = ([''dist/a.js'', ''dist/sub/b.js'', ''dist/e.js''], None)
   \<and> list_all ends_with_js (fst (filesToCompress_dir ends_with_js ''dist'' sample_tree))
   \<and> filesToCompress_dir ends_with_js ''dist/sub''
        (DirNode [(''b.js'', FileNode), (''gone'', NoStat (Err ''ENOENT'')), (''c.js'', FileNode)])
       = ([''dist/sub/b.js''], Some (Err ''ENOENT''))
   \<and> walk_entries ends_with_js ''dist''
        [(''sub'', DirNode [(''b.js'', FileNode), (''gone'', NoStat (Err ''ENOENT'')), (''c.js'', FileNode)]),
         (''d.css'', FileNode),
         (''e.js'', FileNode)]
       = ([''dist/sub/b.js'', ''dist/e.js''], None)"
  using directory_walk [of ends_with_js "''dist''" sample_tree
      "DirNode [(''b.js'', FileNode), (''gone'', NoStat (Err ''ENOENT'')), (''c.js'', FileNode)]"
      "''sub''" "[(''d.css'', FileNode), (''e.js'', FileNode)]" "Err ''EACCES''"
      "[(''a.js'', FileNode),
        (''locked'', UnlistableDir (Err ''EACCES'')),
        (''sub'', DirNode [(''b.js'', FileNode), (''gone'', NoStat (Err ''ENOENT'')), (''c.js'', FileNode)]),
        (''d.css'', FileNode),
        (''e.js'', FileNode)]"]
  by (simp add: sample_tree_def ends_with_js_def path_join_def Let_def)

section \<open>The queue and the run\<close>

declare drain.simps [simp del]

lemma drain_idle:
  "running (queue s) = [] \<Longrightarrow> waiting (queue s) = [] \<Longrightarrow> drain e picks s = Some s"
  by (simp add: drain.simps)

lemma drain_step:
  "running (queue s) \<noteq> [] \<Longrightarrow>
     drain e picks s = drain e (tl picks) (complete e (pick picks (length (running (queue s)))) s)"
  by (subst drain.simps) simp

lemma pick_less: "0 < n \<Longrightarrow> pick picks n < n"
  by (simp add: pick_def split: list.splits)

text \<open>A task decides nothing from the shared state: it appends what it records.\<close>

lemma run_task_output: "output_array (snd (run_task e t st)) = output_array st @ outcomes_of e t"
  by (cases t)
     (auto simp: outcomes_of_def empty_state_def task_defs Let_def split: sum.splits option.splits)

lemma mset_js_sort: "mset (js_sort cmp xs) = mset xs"
proof -
  have ins: "mset (insert_by cmp x ys) = add_mset x (mset ys)" for x ys
    by (induction ys) simp_all
  show ?thesis
    unfolding js_sort_def by (induction xs) (simp_all add: ins)
qed

lemma limit_add [simp]: "limit (add t q) = limit q"
  by (simp add: add_def)

lemma limit_settle [simp]: "limit (settle i q) = limit q"
  by (simp add: settle_def Let_def split: list.splits)

lemma running_add_le: "length (running q) \<le> limit q \<Longrightarrow> length (running (add t q)) \<le> limit q"
  by (simp add: add_def)

lemma running_settle_le:
  "i < length (running q) \<Longrightarrow> length (running (settle i q)) \<le> length (running q)"
  by (auto simp: settle_def Let_def split: list.splits)

lemma tasks_add:
  "mset (running (add t q)) + mset (waiting (add t q)) = add_mset t (mset (running q) + mset (waiting q))"
  by (simp add: add_def)

lemma mset_remove_nth:
  "i < length xs \<Longrightarrow> add_mset (xs ! i) (mset (take i xs @ drop (Suc i) xs)) = mset xs"
  by (metis add_mset_add_single append_take_drop_id id_take_nth_drop mset.simps(2) mset_append
      union_mset_add_mset_right)

lemma tasks_settle:
  "i < length (running q) \<Longrightarrow>
     add_mset (running q ! i) (mset (running (settle i q)) + mset (waiting (settle i q)))
       = mset (running q) + mset (waiting q)"
  using mset_remove_nth [of i "running q"]
  by (auto simp: settle_def Let_def split: list.splits)

lemma submit_bounded:
  "bounded s \<Longrightarrow> bounded (submit t s) \<and> limit (queue (submit t s)) = limit (queue s)"
  by (simp add: bounded_def submit_def Let_def running_add_le)

lemma submit_live: "0 < limit (queue s) \<Longrightarrow> live s \<Longrightarrow> live (submit t s)"
  by (auto simp: live_def submit_def Let_def add_def)

lemma submit_shared [simp]: "shared (submit t s) = shared s"
  by (simp add: submit_def Let_def)

lemma submit_weight: "weight e (queue (submit t s)) = mset (outcomes_of e t) + weight e (queue s)"
  by (simp add: weight_def submit_def Let_def tasks_add)

lemma fold_submit:
  "bounded s \<Longrightarrow> 0 < limit (queue s) \<Longrightarrow> live s \<Longrightarrow>
     bounded (fold submit ts s) \<and> live (fold submit ts s)
     \<and> limit (queue (fold submit ts s)) = limit (queue s)
     \<and> shared (fold submit ts s) = shared s
     \<and> weight e (queue (fold submit ts s)) = mset (concat (map (outcomes_of e) ts)) + weight e (queue s)"
proof (induction ts arbitrary: s)
  case Nil
  then show ?case by simp
next
  case (Cons t ts)
  have b: "bounded (submit t s)" and l: "limit (queue (submit t s)) = limit (queue s)"
    using submit_bounded [OF Cons.prems(1)] by simp_all
  have v: "live (submit t s)"
    using Cons.prems by (simp add: submit_live)
  from Cons.IH [OF b _ v] l Cons.prems(2) show ?case
    by (simp add: submit_weight)
qed

lemma complete_facts:
  assumes "running (queue s) \<noteq> []" and "i < length (running (queue s))"
  shows "(bounded s \<longrightarrow> bounded (complete e i s))"
    and "limit (queue (complete e i s)) = limit (queue s)"
    and "live (complete e i s)"
    and "mset (output_array (shared (complete e i s))) + weight e (queue (complete e i s))
           = mset (output_array (shared s)) + weight e (queue s)"
proof -
  obtain r st where rt: "run_task e (running (queue s) ! i) (shared s) = (r, st)"
    by (cases "run_task e (running (queue s) ! i) (shared s)")
  have out: "output_array st = output_array (shared s) @ outcomes_of e (running (queue s) ! i)"
    using run_task_output [of e "running (queue s) ! i" "shared s"] rt by simp
  have q: "queue (complete e i s) = settle i (queue s)" and sh: "shared (complete e i s) = st"
    and pk: "peak (complete e i s) = max (peak s) (length (running (settle i (queue s))))"
    using rt by (simp_all add: complete_def Let_def)
  show "bounded s \<longrightarrow> bounded (complete e i s)"
    using running_settle_le [OF assms(2)] by (auto simp: bounded_def q pk)
  show "limit (queue (complete e i s)) = limit (queue s)"
    by (simp add: q)
  show "live (complete e i s)"
    by (auto simp: live_def q settle_def Let_def split: list.splits)
  have "weight e (queue s) = mset (outcomes_of e (running (queue s) ! i)) + weight e (settle i (queue s))"
    unfolding weight_def using tasks_settle [OF assms(2), symmetric] by simp
  then show "mset (output_array (shared (complete e i s))) + weight e (queue (complete e i s))
           = mset (output_array (shared s)) + weight e (queue s)"
    by (simp add: q sh out)
qed

text \<open>From a state in which tasks wait only while some task runs, the queue becomes
  idle, whatever the scheduler picks; it has kept its bound, and every task has added
  what it records.\<close>

lemma drain_facts:
  "live s \<Longrightarrow>
     \<exists>s'. drain e picks s = Some s'
        \<and> (bounded s \<longrightarrow> bounded s')
        \<and> limit (queue s') = limit (queue s)
        \<and> mset (output_array (shared s')) = mset (output_array (shared s)) + weight e (queue s)"
proof (induction e picks s rule: drain.induct)
  case (1 e picks s)
  show ?case
  proof (cases "running (queue s) = []")
    case True
    with "1.prems" have "waiting (queue s) = []" by (simp add: live_def)
    with True show ?thesis
      by (simp add: drain_idle weight_def)
  next
    case False
    define i where "i = pick picks (length (running (queue s)))"
    have i: "i < length (running (queue s))"
      using False by (simp add: i_def pick_less)
    note f = complete_facts [OF False i, of e]
    from "1.IH" [OF False] f(3) obtain s' where
      s': "drain e (tl picks) (complete e i s) = Some s'"
      "bounded (complete e i s) \<longrightarrow> bounded s'"
      "limit (queue s') = limit (queue (complete e i s))"
      "mset (output_array (shared s')) = mset (output_array (shared (complete e i s))) + weight e (queue (complete e i s))"
      unfolding i_def by blast
    have "drain e picks s = Some s'"
      using drain_step [OF False, of e picks] s'(1) by (simp add: i_def)
    with s' f show ?thesis
      by simp
  qed
qed

lemma enqueue_facts:
  "bounded (enqueue config files st) \<and> live (enqueue config files st)
   \<and> limit (queue (enqueue config files st)) = concurrency defaultOptions
   \<and> shared (enqueue config files st) = st
   \<and> weight e (queue (enqueue config files st))
       = mset (concat (map (outcomes_of e) (concat (map (tasks_of config) files))))"
proof -
  let ?s0 = "\<lparr> queue = pQueue (concurrency defaultOptions), shared = st, rejections = [], peak = 0 \<rparr>"
  have "bounded ?s0" "0 < limit (queue ?s0)" "live ?s0" "weight e (queue ?s0) = {#}"
    by (simp_all add: bounded_def live_def weight_def pQueue_def defaultOptions_def)
  with fold_submit [of ?s0 "concat (map (tasks_of config) files)" e] show ?thesis
    by (simp add: enqueue_def pQueue_def)
qed

lemma run_core:
  "\<exists>s'. drain e picks (enqueue config files st) = Some s'
      \<and> peak s' \<le> concurrency defaultOptions
      \<and> mset (output_array (shared s'))
          = mset (output_array st)
            + mset (concat (map (outcomes_of e) (concat (map (tasks_of config) files))))"
proof -
  note f = enqueue_facts [of config files st e]
  from drain_facts [of "enqueue config files st" e picks] f obtain s' where
    "drain e picks (enqueue config files st) = Some s'" "bounded s'"
    "limit (queue s') = concurrency defaultOptions"
    "mset (output_array (shared s')) = mset (output_array st)
       + mset (concat (map (outcomes_of e) (concat (map (tasks_of config) files))))"
    by auto
  then show ?thesis
    by (auto simp: bounded_def)
qed

lemma bundled_facts:
  "most_running (bundled b st) \<le> concurrency defaultOptions"
  "result (bundled b st) \<noteq> NeverIdle"
  "mset (output_array (after (bundled b st))) = mset (output_array st) + mset (produced b)"
  "result (bundled b st) = Table xs rows \<Longrightarrow> xs = output_array (after (bundled b st))"
proof -
  have core: "\<forall>config files. \<exists>s'. drain (sys b) (schedule b) (enqueue config files st) = Some s'
      \<and> peak s' \<le> concurrency defaultOptions
      \<and> mset (output_array (shared s'))
          = mset (output_array st)
            + mset (concat (map (outcomes_of (sys b)) (concat (map (tasks_of config) files))))"
    using run_core by blast
  show "most_running (bundled b st) \<le> concurrency defaultOptions"
    unfolding bundled_def Let_def
    by (auto split: sum.splits prod.splits option.splits)
       (metis core option.inject)
  show "result (bundled b st) \<noteq> NeverIdle"
    unfolding bundled_def Let_def
    by (auto split: sum.splits prod.splits option.splits)
       (metis core option.distinct(1))
  show "mset (output_array (after (bundled b st))) = mset (output_array st) + mset (produced b)"
    unfolding bundled_def produced_def submitted_def Let_def
    by (auto simp: mset_js_sort split: sum.splits prod.splits option.splits)
       (metis core option.distinct(1), metis core option.inject)
  show "result (bundled b st) = Table xs rows \<Longrightarrow> xs = output_array (after (bundled b st))"
    by (auto simp: bundled_def Let_def split: sum.splits prod.splits option.splits if_splits)
qed

text \<open>
  C2, as stated, fails: in the build whose configuration source supplies
  \<^verbatim>\<open>concurrency: 1\<close>, the queue's bound is not 1, and the two tasks of the one file
  run at once.
\<close>

theorem configured_concurrency_counterexample:
  "limit (queue (enqueue single_config [''dist/a.js''] empty_state)) \<noteq> concurrency (resolved (Some single_config))
   \<and> \<not> most_running (bundled single_build empty_state) \<le> concurrency (resolved (Some single_config))"
  by code_simp

text \<open>
  C2, amended. For every run, the bound of the queue is the built-in default
  \<^verbatim>\<open>defaultOptions.concurrency\<close>, which is 2, whatever configuration was resolved;
  never more than that many tasks run at once, and the queue becomes idle.
\<close>

theorem queue_bound_is_default:
  "limit (queue (enqueue config files st)) = concurrency defaultOptions
   \<and> concurrency defaultOptions = 2
   \<and> most_running (bundled b st) \<le> concurrency defaultOptions
   \<and> result (bundled b st) \<noteq> NeverIdle"
  using enqueue_facts [of config files st] bundled_facts(1,2) [of b st]
  by (simp add: defaultOptions_def)

section \<open>Several runs in one process\<close>

lemma builds_output:
  "k < length bs \<Longrightarrow>
     mset (output_array (after (builds bs st ! k)))
       = mset (output_array st) + mset (concat (map produced (take (Suc k) bs)))"
proof (induction bs arbitrary: st k)
  case Nil
  then show ?case by simp
next
  case (Cons b bs)
  show ?case
  proof (cases k)
    case 0
    then show ?thesis
      by (simp add: Let_def bundled_facts(3))
  next
    case (Suc j)
    with Cons.prems have "j < length bs" by simp
    from Cons.IH [OF this, of "after (bundled b st)"] Suc show ?thesis
      by (simp add: Let_def bundled_facts(3))
  qed
qed

lemma builds_nth_table:
  "k < length bs \<Longrightarrow> result (builds bs st ! k) = Table xs rows \<Longrightarrow>
     xs = output_array (after (builds bs st ! k))"
proof (induction bs arbitrary: st k)
  case Nil
  then show ?case by simp
next
  case (Cons b bs)
  then show ?case
    by (cases k) (auto simp: Let_def dest: bundled_facts(4))
qed

text \<open>
  C4, as stated, fails: after a build that compressed \<^verbatim>\<open>dist/a.js\<close>, the report of a
  second build that submits no task holds the two outcomes of the first.
\<close>

theorem cross_run_counterexample:
  "produced second_build = []
   \<and> collected (builds [first_build, second_build] empty_state ! 1)
       = [\<lparr> o_size = 2, o_file = ''dist/a.js.gz'', o_time = 7 \<rparr>,
          \<lparr> o_size = 2, o_file = ''dist/a.js.br'', o_time = 7 \<rparr>]
   \<and> mset (collected (builds [first_build, second_build] empty_state ! 1)) \<noteq> mset (produced second_build)"
  by code_simp

text \<open>
  C4, amended. For every sequence of runs in one process, the collection handed to the
  reporter at the end of a run holds, up to order, what the module-level array held
  before the first run together with the outcomes of that run and of every earlier
  run: the array is never cleared.
\<close>

theorem output_accumulates:
  assumes "k < length bs" and "result (builds bs st ! k) = Table xs rows"
  shows "mset xs = mset (output_array st) + mset (concat (map produced (take (Suc k) bs)))"
  using builds_output [OF assms(1), of st] builds_nth_table [OF assms] by simp

text \<open>The two sample builds, from the empty array: the second report is made of the
  first build's outcomes.\<close>

theorem output_accumulates_witness:
  "(1::nat) < length [first_build, second_build]
   \<and> result (builds [first_build, second_build] empty_state ! 1)
       = Table [\<lparr> o_size = 2, o_file = ''dist/a.js.gz'', o_time = 7 \<rparr>,
                \<lparr> o_size = 2, o_file = ''dist/a.js.br'', o_time = 7 \<rparr>]
               [[''dist/a.js.gz''], [''dist/a.js.br'']]
   \<and> mset [\<lparr> o_size = 2, o_file = ''dist/a.js.gz'', o_time = 7 \<rparr>,
            \<lparr> o_size = 2, o_file = ''dist/a.js.br'', o_time = 7 \<rparr>]
       = mset (output_array empty_state)
         + mset (concat (map produced (take (Suc 1) [first_build, second_build])))"
proof -
  have h1: "(1::nat) < length [first_build, second_build]"
    by simp
  have h2: "result (builds [first_build, second_build] empty_state ! 1)
       = Table [\<lparr> o_size = 2, o_file = ''dist/a.js.gz'', o_time = 7 \<rparr>,
                \<lparr> o_size = 2, o_file = ''dist/a.js.br'', o_time = 7 \<rparr>]
               [[''dist/a.js.gz''], [''dist/a.js.br'']]"
    by code_simp
  show ?thesis
    by (intro conjI h1 h2 output_accumulates [OF h1 h2])
qed

end
